theory Spec2Isabelle
  imports Complex_Main "HOL-Library.Char_ord" "HOL-Library.List_Lexorder"
    "HOL-Library.AList" "HOL-Library.Multiset"
begin

section \<open>Strings\<close>

text \<open>
  A Python \<open>str\<close> is modelled as a \<open>string\<close> holding its UTF-8 bytes. The encoding is
  injective, so equality and membership tests on strings agree with Python's; it is
  self-synchronising, so the substring test \<open>needle in hay\<close> agrees on the bytes; and the
  lexicographic order on the bytes is the order on the code points, which is how Python
  compares strings. The Russian literals of the source are written out byte by byte.
\<close>

subsection \<open>Risk tags (conditions.py) and muscle keywords (recommender.py)\<close>

definition tag_heart :: string where
  \<comment> \<open>UTF-8 bytes of the code points U+0441 U+0435 U+0440 U+0434 U+0446 U+0435 (heart)\<close>
  "tag_heart =
     [CHR 0xD1, CHR 0x81, CHR 0xD0, CHR 0xB5, CHR 0xD1, CHR 0x80, CHR 0xD0, CHR 0xB4,
      CHR 0xD1, CHR 0x86, CHR 0xD0, CHR 0xB5]"

definition tag_joints :: string where
  \<comment> \<open>UTF-8 bytes of the code points U+0441 U+0443 U+0441 U+0442 U+0430 U+0432 U+044B (joints)\<close>
  "tag_joints =
     [CHR 0xD1, CHR 0x81, CHR 0xD1, CHR 0x83, CHR 0xD1, CHR 0x81, CHR 0xD1, CHR 0x82,
      CHR 0xD0, CHR 0xB0, CHR 0xD0, CHR 0xB2, CHR 0xD1, CHR 0x8B]"

definition tag_back :: string where
  \<comment> \<open>UTF-8 bytes of the code points U+0441 U+043F U+0438 U+043D U+0430 (back)\<close>
  "tag_back =
     [CHR 0xD1, CHR 0x81, CHR 0xD0, CHR 0xBF, CHR 0xD0, CHR 0xB8, CHR 0xD0, CHR 0xBD,
      CHR 0xD0, CHR 0xB0]"

definition tag_knees :: string where
  \<comment> \<open>UTF-8 bytes of the code points U+043A U+043E U+043B U+0435 U+043D U+0438 (knees)\<close>
  "tag_knees =
     [CHR 0xD0, CHR 0xBA, CHR 0xD0, CHR 0xBE, CHR 0xD0, CHR 0xBB, CHR 0xD0, CHR 0xB5,
      CHR 0xD0, CHR 0xBD, CHR 0xD0, CHR 0xB8]"

definition tag_hips :: string where
  \<comment> \<open>UTF-8 bytes of the code points U+0442 U+0430 U+0437 U+043E U+0431 U+0435 U+0434 U+0440 U+0435 U+043D U+043D U+044B U+0435 (hip joints)\<close>
  "tag_hips =
     [CHR 0xD1, CHR 0x82, CHR 0xD0, CHR 0xB0, CHR 0xD0, CHR 0xB7, CHR 0xD0, CHR 0xBE,
      CHR 0xD0, CHR 0xB1, CHR 0xD0, CHR 0xB5, CHR 0xD0, CHR 0xB4, CHR 0xD1, CHR 0x80,
      CHR 0xD0, CHR 0xB5, CHR 0xD0, CHR 0xBD, CHR 0xD0, CHR 0xBD, CHR 0xD1, CHR 0x8B,
      CHR 0xD0, CHR 0xB5]"

definition tag_shoulders :: string where
  \<comment> \<open>UTF-8 bytes of the code points U+043F U+043B U+0435 U+0447 U+0438 (shoulders)\<close>
  "tag_shoulders =
     [CHR 0xD0, CHR 0xBF, CHR 0xD0, CHR 0xBB, CHR 0xD0, CHR 0xB5, CHR 0xD1, CHR 0x87,
      CHR 0xD0, CHR 0xB8]"

definition tag_elbows :: string where
  \<comment> \<open>UTF-8 bytes of the code points U+043B U+043E U+043A U+0442 U+0438 (elbows)\<close>
  "tag_elbows =
     [CHR 0xD0, CHR 0xBB, CHR 0xD0, CHR 0xBE, CHR 0xD0, CHR 0xBA, CHR 0xD1, CHR 0x82,
      CHR 0xD0, CHR 0xB8]"

definition tag_wrists :: string where
  \<comment> \<open>UTF-8 bytes of the code points U+0437 U+0430 U+043F U+044F U+0441 U+0442 U+044C U+044F (wrists)\<close>
  "tag_wrists =
     [CHR 0xD0, CHR 0xB7, CHR 0xD0, CHR 0xB0, CHR 0xD0, CHR 0xBF, CHR 0xD1, CHR 0x8F,
      CHR 0xD1, CHR 0x81, CHR 0xD1, CHR 0x82, CHR 0xD1, CHR 0x8C, CHR 0xD1, CHR 0x8F]"

definition tag_lower_back :: string where
  \<comment> \<open>UTF-8 bytes of the code points U+043F U+043E U+044F U+0441 U+043D U+0438 U+0446 U+0430 (lower back)\<close>
  "tag_lower_back =
     [CHR 0xD0, CHR 0xBF, CHR 0xD0, CHR 0xBE, CHR 0xD1, CHR 0x8F, CHR 0xD1, CHR 0x81,
      CHR 0xD0, CHR 0xBD, CHR 0xD0, CHR 0xB8, CHR 0xD1, CHR 0x86, CHR 0xD0, CHR 0xB0]"

definition tag_neck :: string where
  \<comment> \<open>UTF-8 bytes of the code points U+0448 U+0435 U+044F (neck)\<close>
  "tag_neck =
     [CHR 0xD1, CHR 0x88, CHR 0xD0, CHR 0xB5, CHR 0xD1, CHR 0x8F]"

definition tag_obesity :: string where
  \<comment> \<open>UTF-8 bytes of the code points U+043E U+0436 U+0438 U+0440 U+0435 U+043D U+0438 U+0435 (obesity)\<close>
  "tag_obesity =
     [CHR 0xD0, CHR 0xBE, CHR 0xD0, CHR 0xB6, CHR 0xD0, CHR 0xB8, CHR 0xD1, CHR 0x80,
      CHR 0xD0, CHR 0xB5, CHR 0xD0, CHR 0xBD, CHR 0xD0, CHR 0xB8, CHR 0xD0, CHR 0xB5]"

definition tag_diabetes :: string where
  \<comment> \<open>UTF-8 bytes of the code points U+0434 U+0438 U+0430 U+0431 U+0435 U+0442 (diabetes)\<close>
  "tag_diabetes =
     [CHR 0xD0, CHR 0xB4, CHR 0xD0, CHR 0xB8, CHR 0xD0, CHR 0xB0, CHR 0xD0, CHR 0xB1,
      CHR 0xD0, CHR 0xB5, CHR 0xD1, CHR 0x82]"

definition tag_asthma :: string where
  \<comment> \<open>UTF-8 bytes of the code points U+0430 U+0441 U+0442 U+043C U+0430 (asthma)\<close>
  "tag_asthma =
     [CHR 0xD0, CHR 0xB0, CHR 0xD1, CHR 0x81, CHR 0xD1, CHR 0x82, CHR 0xD0, CHR 0xBC,
      CHR 0xD0, CHR 0xB0]"

definition tag_pregnancy :: string where
  \<comment> \<open>UTF-8 bytes of the code points U+0431 U+0435 U+0440 U+0435 U+043C U+0435 U+043D U+043D U+043E U+0441 U+0442 U+044C (pregnancy)\<close>
  "tag_pregnancy =
     [CHR 0xD0, CHR 0xB1, CHR 0xD0, CHR 0xB5, CHR 0xD1, CHR 0x80, CHR 0xD0, CHR 0xB5,
      CHR 0xD0, CHR 0xBC, CHR 0xD0, CHR 0xB5, CHR 0xD0, CHR 0xBD, CHR 0xD0, CHR 0xBD,
      CHR 0xD0, CHR 0xBE, CHR 0xD1, CHR 0x81, CHR 0xD1, CHR 0x82, CHR 0xD1, CHR 0x8C]"

definition tag_post_surgery :: string where
  \<comment> \<open>UTF-8 bytes of the code points U+043F U+043E U+0441 U+043B U+0435 U+0020 U+043E U+043F U+0435 U+0440 U+0430 U+0446 U+0438 U+0438 (after surgery)\<close>
  "tag_post_surgery =
     [CHR 0xD0, CHR 0xBF, CHR 0xD0, CHR 0xBE, CHR 0xD1, CHR 0x81, CHR 0xD0, CHR 0xBB,
      CHR 0xD0, CHR 0xB5] @ '' '' @ [CHR 0xD0, CHR 0xBE, CHR 0xD0, CHR 0xBF, CHR 0xD0,
      CHR 0xB5, CHR 0xD1, CHR 0x80, CHR 0xD0, CHR 0xB0, CHR 0xD1, CHR 0x86, CHR 0xD0,
      CHR 0xB8, CHR 0xD0, CHR 0xB8]"

definition kw_chest :: string where
  \<comment> \<open>UTF-8 bytes of the code points U+0433 U+0440 U+0443 U+0434 U+044C (chest)\<close>
  "kw_chest =
     [CHR 0xD0, CHR 0xB3, CHR 0xD1, CHR 0x80, CHR 0xD1, CHR 0x83, CHR 0xD0, CHR 0xB4,
      CHR 0xD1, CHR 0x8C]"

definition kw_legs :: string where
  \<comment> \<open>UTF-8 bytes of the code points U+043D U+043E U+0433 U+0438 (legs)\<close>
  "kw_legs =
     [CHR 0xD0, CHR 0xBD, CHR 0xD0, CHR 0xBE, CHR 0xD0, CHR 0xB3, CHR 0xD0, CHR 0xB8]"

definition kw_abs :: string where
  \<comment> \<open>UTF-8 bytes of the code points U+043F U+0440 U+0435 U+0441 U+0441 (abdominals)\<close>
  "kw_abs =
     [CHR 0xD0, CHR 0xBF, CHR 0xD1, CHR 0x80, CHR 0xD0, CHR 0xB5, CHR 0xD1, CHR 0x81,
      CHR 0xD1, CHR 0x81]"

definition kw_biceps :: string where
  \<comment> \<open>UTF-8 bytes of the code points U+0431 U+0438 U+0446 U+0435 U+043F U+0441 (biceps)\<close>
  "kw_biceps =
     [CHR 0xD0, CHR 0xB1, CHR 0xD0, CHR 0xB8, CHR 0xD1, CHR 0x86, CHR 0xD0, CHR 0xB5,
      CHR 0xD0, CHR 0xBF, CHR 0xD1, CHR 0x81]"

text \<open>
  The muscle keywords for shoulders and back are the same words as the risk tags
  \<open>tag_shoulders\<close> and \<open>tag_back\<close>.
\<close>

subsection \<open>Goal queries of the ranker (exercise\_ml.py)\<close>

definition query_weight_loss :: string where
  "query_weight_loss =
     [CHR 0xD0, CHR 0xBF, CHR 0xD0, CHR 0xBE, CHR 0xD1, CHR 0x85, CHR 0xD1, CHR 0x83,
      CHR 0xD0, CHR 0xB4, CHR 0xD0, CHR 0xB5, CHR 0xD0, CHR 0xBD, CHR 0xD0, CHR 0xB8,
      CHR 0xD0, CHR 0xB5] @ '' '' @ [CHR 0xD0, CHR 0xB6, CHR 0xD0, CHR 0xB8, CHR 0xD1,
      CHR 0x80] @ '' '' @ [CHR 0xD0, CHR 0xBA, CHR 0xD0, CHR 0xB0, CHR 0xD1, CHR 0x80,
      CHR 0xD0, CHR 0xB4, CHR 0xD0, CHR 0xB8, CHR 0xD0, CHR 0xBE] @ '' '' @ [CHR 0xD1,
      CHR 0x85, CHR 0xD0, CHR 0xBE, CHR 0xD0, CHR 0xB4, CHR 0xD1, CHR 0x8C, CHR 0xD0,
      CHR 0xB1, CHR 0xD0, CHR 0xB0] @ '' '' @ [CHR 0xD0, CHR 0xB1, CHR 0xD0, CHR 0xB5,
      CHR 0xD0, CHR 0xB3] @ '' '' @ [CHR 0xD0, CHR 0xBD, CHR 0xD0, CHR 0xB8, CHR 0xD0,
      CHR 0xB7, CHR 0xD0, CHR 0xBA, CHR 0xD0, CHR 0xB0, CHR 0xD1, CHR 0x8F] @ '' '' @
      [CHR 0xD1, CHR 0x83, CHR 0xD0, CHR 0xB4, CHR 0xD0, CHR 0xB0, CHR 0xD1, CHR 0x80,
      CHR 0xD0, CHR 0xBD, CHR 0xD0, CHR 0xB0, CHR 0xD1, CHR 0x8F] @ '' '' @ [CHR 0xD0,
      CHR 0xBD, CHR 0xD0, CHR 0xB0, CHR 0xD0, CHR 0xB3, CHR 0xD1, CHR 0x80, CHR 0xD1,
      CHR 0x83, CHR 0xD0, CHR 0xB7, CHR 0xD0, CHR 0xBA, CHR 0xD0, CHR 0xB0] @
      '' cardio fat loss walking running low impact''"

definition query_muscle_gain :: string where
  "query_muscle_gain =
     [CHR 0xD0, CHR 0xBC, CHR 0xD1, CHR 0x8B, CHR 0xD1, CHR 0x88, CHR 0xD0, CHR 0xB5,
      CHR 0xD1, CHR 0x87, CHR 0xD0, CHR 0xBD, CHR 0xD0, CHR 0xB0, CHR 0xD1, CHR 0x8F] @
      '' '' @ [CHR 0xD0, CHR 0xBC, CHR 0xD0, CHR 0xB0, CHR 0xD1, CHR 0x81, CHR 0xD1,
      CHR 0x81, CHR 0xD0, CHR 0xB0] @ '' '' @ [CHR 0xD1, CHR 0x81, CHR 0xD0, CHR 0xB8,
      CHR 0xD0, CHR 0xBB, CHR 0xD0, CHR 0xB0] @ '' '' @ [CHR 0xD0, CHR 0xBF, CHR 0xD1,
      CHR 0x80, CHR 0xD0, CHR 0xB8, CHR 0xD1, CHR 0x81, CHR 0xD0, CHR 0xB5, CHR 0xD0,
      CHR 0xB4] @ '' '' @ [CHR 0xD0, CHR 0xB6, CHR 0xD0, CHR 0xB8, CHR 0xD0,
      CHR 0xBC] @ '' '' @ [CHR 0xD1, CHR 0x82, CHR 0xD1, CHR 0x8F, CHR 0xD0, CHR 0xB3,
      CHR 0xD0, CHR 0xB0] @ '' hypertrophy strength muscle squat press row deadlift''"

definition query_maintenance :: string where
  "query_maintenance =
     [CHR 0xD0, CHR 0xBF, CHR 0xD0, CHR 0xBE, CHR 0xD0, CHR 0xB4, CHR 0xD0, CHR 0xB4,
      CHR 0xD0, CHR 0xB5, CHR 0xD1, CHR 0x80, CHR 0xD0, CHR 0xB6, CHR 0xD0, CHR 0xB0,
      CHR 0xD0, CHR 0xBD, CHR 0xD0, CHR 0xB8, CHR 0xD0, CHR 0xB5] @ '' '' @ [CHR 0xD1,
      CHR 0x84, CHR 0xD0, CHR 0xBE, CHR 0xD1, CHR 0x80, CHR 0xD0, CHR 0xBC, CHR 0xD1,
      CHR 0x8B] @ '' '' @ [CHR 0xD0, CHR 0xBE, CHR 0xD0, CHR 0xB1, CHR 0xD1, CHR 0x89,
      CHR 0xD0, CHR 0xB5, CHR 0xD0, CHR 0xB5] @ '' '' @ [CHR 0xD0, CHR 0xB7, CHR 0xD0,
      CHR 0xB4, CHR 0xD0, CHR 0xBE, CHR 0xD1, CHR 0x80, CHR 0xD0, CHR 0xBE, CHR 0xD0,
      CHR 0xB2, CHR 0xD1, CHR 0x8C, CHR 0xD0, CHR 0xB5] @ '' '' @ [CHR 0xD1, CHR 0x81,
      CHR 0xD0, CHR 0xB8, CHR 0xD0, CHR 0xBB, CHR 0xD0, CHR 0xBE, CHR 0xD0, CHR 0xB2,
      CHR 0xD1, CHR 0x8B, CHR 0xD0, CHR 0xB5] @ '' '' @ [CHR 0xD0, CHR 0xBA, CHR 0xD0,
      CHR 0xB0, CHR 0xD1, CHR 0x80, CHR 0xD0, CHR 0xB4, CHR 0xD0, CHR 0xB8, CHR 0xD0,
      CHR 0xBE] @ '' mobility general fitness strength cardio mobility''"

definition query_endurance :: string where
  "query_endurance =
     [CHR 0xD0, CHR 0xB2, CHR 0xD1, CHR 0x8B, CHR 0xD0, CHR 0xBD, CHR 0xD0, CHR 0xBE,
      CHR 0xD1, CHR 0x81, CHR 0xD0, CHR 0xBB, CHR 0xD0, CHR 0xB8, CHR 0xD0, CHR 0xB2,
      CHR 0xD0, CHR 0xBE, CHR 0xD1, CHR 0x81, CHR 0xD1, CHR 0x82, CHR 0xD1, CHR 0x8C] @
      '' '' @ [CHR 0xD0, CHR 0xB4, CHR 0xD0, CHR 0xBB, CHR 0xD0, CHR 0xB8, CHR 0xD1,
      CHR 0x82, CHR 0xD0, CHR 0xB5, CHR 0xD0, CHR 0xBB, CHR 0xD1, CHR 0x8C, CHR 0xD0,
      CHR 0xBD, CHR 0xD0, CHR 0xBE, CHR 0xD0, CHR 0xB5] @ '' '' @ [CHR 0xD0, CHR 0xBA,
      CHR 0xD0, CHR 0xB0, CHR 0xD1, CHR 0x80, CHR 0xD0, CHR 0xB4, CHR 0xD0, CHR 0xB8,
      CHR 0xD0, CHR 0xBE] @ '' '' @ [CHR 0xD0, CHR 0xB1, CHR 0xD0, CHR 0xB5, CHR 0xD0,
      CHR 0xB3] @ '' '' @ [CHR 0xD0, CHR 0xB2, CHR 0xD0, CHR 0xB5, CHR 0xD0, CHR 0xBB,
      CHR 0xD0, CHR 0xBE, CHR 0xD1, CHR 0x81, CHR 0xD0, CHR 0xB8, CHR 0xD0, CHR 0xBF,
      CHR 0xD0, CHR 0xB5, CHR 0xD0, CHR 0xB4] @ '' '' @ [CHR 0xD1, CHR 0x8D, CHR 0xD0,
      CHR 0xBB, CHR 0xD0, CHR 0xBB, CHR 0xD0, CHR 0xB8, CHR 0xD0, CHR 0xBF, CHR 0xD1,
      CHR 0x81] @ '' endurance running cycling long cardio''"

definition query_back_health :: string where
  "query_back_health =
     [CHR 0xD1, CHR 0x81, CHR 0xD0, CHR 0xBF, CHR 0xD0, CHR 0xB8, CHR 0xD0, CHR 0xBD,
      CHR 0xD0, CHR 0xB0] @ '' '' @ [CHR 0xD0, CHR 0xBF, CHR 0xD0, CHR 0xBE, CHR 0xD1,
      CHR 0x8F, CHR 0xD1, CHR 0x81, CHR 0xD0, CHR 0xBD, CHR 0xD0, CHR 0xB8, CHR 0xD1,
      CHR 0x86, CHR 0xD0, CHR 0xB0] @ '' '' @ [CHR 0xD1, CHR 0x80, CHR 0xD0, CHR 0xB5,
      CHR 0xD0, CHR 0xB0, CHR 0xD0, CHR 0xB1, CHR 0xD0, CHR 0xB8, CHR 0xD0, CHR 0xBB,
      CHR 0xD0, CHR 0xB8, CHR 0xD1, CHR 0x82, CHR 0xD0, CHR 0xB0, CHR 0xD1, CHR 0x86,
      CHR 0xD0, CHR 0xB8, CHR 0xD1, CHR 0x8F] @ '' '' @ [CHR 0xD0, CHR 0x9B, CHR 0xD0,
      CHR 0xA4, CHR 0xD0, CHR 0x9A] @ '' '' @ [CHR 0xD1, CHR 0x81, CHR 0xD1, CHR 0x82,
      CHR 0xD0, CHR 0xB0, CHR 0xD0, CHR 0xB1, CHR 0xD0, CHR 0xB8, CHR 0xD0, CHR 0xBB,
      CHR 0xD0, CHR 0xB8, CHR 0xD0, CHR 0xB7, CHR 0xD0, CHR 0xB0, CHR 0xD1, CHR 0x86,
      CHR 0xD0, CHR 0xB8, CHR 0xD1, CHR 0x8F] @ '' '' @ [CHR 0xD0, CHR 0xBA, CHR 0xD0,
      CHR 0xBE, CHR 0xD1, CHR 0x80, CHR 0xD0, CHR 0xB0] @
      '' rehab back pain core stability mobility''"

definition query_general_health :: string where
  "query_general_health =
     [CHR 0xD0, CHR 0xBE, CHR 0xD0, CHR 0xB1, CHR 0xD1, CHR 0x89, CHR 0xD0, CHR 0xB5,
      CHR 0xD0, CHR 0xB5] @ '' '' @ [CHR 0xD0, CHR 0xB7, CHR 0xD0, CHR 0xB4, CHR 0xD0,
      CHR 0xBE, CHR 0xD1, CHR 0x80, CHR 0xD0, CHR 0xBE, CHR 0xD0, CHR 0xB2, CHR 0xD1,
      CHR 0x8C, CHR 0xD0, CHR 0xB5] @ '' '' @ [CHR 0xD1, CHR 0x85, CHR 0xD0, CHR 0xBE,
      CHR 0xD0, CHR 0xB4, CHR 0xD1, CHR 0x8C, CHR 0xD0, CHR 0xB1, CHR 0xD0, CHR 0xB0] @
      '' '' @ [CHR 0xD1, CHR 0x83, CHR 0xD0, CHR 0xBC, CHR 0xD0, CHR 0xB5, CHR 0xD1,
      CHR 0x80, CHR 0xD0, CHR 0xB5, CHR 0xD0, CHR 0xBD, CHR 0xD0, CHR 0xBD, CHR 0xD0,
      CHR 0xBE, CHR 0xD0, CHR 0xB5] @ '' '' @ [CHR 0xD0, CHR 0xBA, CHR 0xD0, CHR 0xB0,
      CHR 0xD1, CHR 0x80, CHR 0xD0, CHR 0xB4, CHR 0xD0, CHR 0xB8, CHR 0xD0, CHR 0xBE] @
      '' '' @ [CHR 0xD0, CHR 0xBB, CHR 0xD1, CHR 0x91, CHR 0xD0, CHR 0xB3, CHR 0xD0,
      CHR 0xBA, CHR 0xD0, CHR 0xB8, CHR 0xD0, CHR 0xB5] @ '' '' @ [CHR 0xD1, CHR 0x81,
      CHR 0xD0, CHR 0xB8, CHR 0xD0, CHR 0xBB, CHR 0xD0, CHR 0xBE, CHR 0xD0, CHR 0xB2,
      CHR 0xD1, CHR 0x8B, CHR 0xD0, CHR 0xB5] @
      '' mobility general health walking light cardio''"

definition DEFAULT_QUERY :: string where
  "DEFAULT_QUERY =
     [CHR 0xD0, CHR 0xBE, CHR 0xD0, CHR 0xB1, CHR 0xD1, CHR 0x89, CHR 0xD0, CHR 0xB5,
      CHR 0xD0, CHR 0xB5] @ '' '' @ [CHR 0xD0, CHR 0xB7, CHR 0xD0, CHR 0xB4, CHR 0xD0,
      CHR 0xBE, CHR 0xD1, CHR 0x80, CHR 0xD0, CHR 0xBE, CHR 0xD0, CHR 0xB2, CHR 0xD1,
      CHR 0x8C, CHR 0xD0, CHR 0xB5] @ '' '' @ [CHR 0xD1, CHR 0x84, CHR 0xD0, CHR 0xB8,
      CHR 0xD1, CHR 0x82, CHR 0xD0, CHR 0xBD, CHR 0xD0, CHR 0xB5, CHR 0xD1, CHR 0x81] @
      '' '' @ [CHR 0xD0, CHR 0xBA, CHR 0xD0, CHR 0xB0, CHR 0xD1, CHR 0x80, CHR 0xD0,
      CHR 0xB4, CHR 0xD0, CHR 0xB8, CHR 0xD0, CHR 0xBE] @ '' '' @ [CHR 0xD1, CHR 0x81,
      CHR 0xD0, CHR 0xB8, CHR 0xD0, CHR 0xBB, CHR 0xD0, CHR 0xBE, CHR 0xD0, CHR 0xB2,
      CHR 0xD1, CHR 0x8B, CHR 0xD0, CHR 0xB5] @ '' '' @ [CHR 0xD1, CHR 0x85, CHR 0xD0,
      CHR 0xBE, CHR 0xD0, CHR 0xB4, CHR 0xD1, CHR 0x8C, CHR 0xD0, CHR 0xB1, CHR 0xD0,
      CHR 0xB0] @ '' '' @ [CHR 0xD1, CHR 0x83, CHR 0xD0, CHR 0xBF, CHR 0xD1, CHR 0x80,
      CHR 0xD0, CHR 0xB0, CHR 0xD0, CHR 0xB6, CHR 0xD0, CHR 0xBD, CHR 0xD0, CHR 0xB5,
      CHR 0xD0, CHR 0xBD, CHR 0xD0, CHR 0xB8, CHR 0xD1, CHR 0x8F] @
      '' general health fitness cardio strength''"

subsection \<open>Comments and titles of the plan (recommender.py)\<close>

definition comment_cardio :: string where
  "comment_cardio =
     [CHR 0xD0, CHR 0x9E, CHR 0xD1, CHR 0x81, CHR 0xD0, CHR 0xBD, CHR 0xD0, CHR 0xBE,
      CHR 0xD0, CHR 0xB2, CHR 0xD0, CHR 0xBD, CHR 0xD0, CHR 0xBE, CHR 0xD0, CHR 0xB9] @
      '' '' @ [CHR 0xD0, CHR 0xB1, CHR 0xD0, CHR 0xBB, CHR 0xD0, CHR 0xBE, CHR 0xD0,
      CHR 0xBA] @ '': '' @ [CHR 0xD0, CHR 0xB8, CHR 0xD0, CHR 0xBD, CHR 0xD1, CHR 0x82,
      CHR 0xD0, CHR 0xB5, CHR 0xD1, CHR 0x80, CHR 0xD0, CHR 0xB2, CHR 0xD0, CHR 0xB0,
      CHR 0xD0, CHR 0xBB, CHR 0xD1, CHR 0x8C, CHR 0xD0, CHR 0xBD, CHR 0xD0, CHR 0xBE,
      CHR 0xD0, CHR 0xB5] @ '' '' @ [CHR 0xD0, CHR 0xB8, CHR 0xD0, CHR 0xBB, CHR 0xD0,
      CHR 0xB8] @ '' '' @ [CHR 0xD1, CHR 0x80, CHR 0xD0, CHR 0xBE, CHR 0xD0, CHR 0xB2,
      CHR 0xD0, CHR 0xBD, CHR 0xD0, CHR 0xBE, CHR 0xD0, CHR 0xB5] @ '' '' @ [CHR 0xD0,
      CHR 0xBA, CHR 0xD0, CHR 0xB0, CHR 0xD1, CHR 0x80, CHR 0xD0, CHR 0xB4, CHR 0xD0,
      CHR 0xB8, CHR 0xD0, CHR 0xBE] @ '', '' @ [CHR 0xD0, CHR 0xBA, CHR 0xD0, CHR 0xBE,
      CHR 0xD0, CHR 0xBD, CHR 0xD1, CHR 0x82, CHR 0xD1, CHR 0x80, CHR 0xD0, CHR 0xBE,
      CHR 0xD0, CHR 0xBB, CHR 0xD0, CHR 0xB8, CHR 0xD1, CHR 0x80, CHR 0xD1, CHR 0x83,
      CHR 0xD0, CHR 0xB9, CHR 0xD1, CHR 0x82, CHR 0xD0, CHR 0xB5] @ '' '' @ [CHR 0xD0,
      CHR 0xB4, CHR 0xD1, CHR 0x8B, CHR 0xD1, CHR 0x85, CHR 0xD0, CHR 0xB0, CHR 0xD0,
      CHR 0xBD, CHR 0xD0, CHR 0xB8, CHR 0xD0, CHR 0xB5] @ ''.''"

definition comment_mobility :: string where
  "comment_mobility =
     [CHR 0xD0, CHR 0x9E, CHR 0xD1, CHR 0x81, CHR 0xD0, CHR 0xBD, CHR 0xD0, CHR 0xBE,
      CHR 0xD0, CHR 0xB2, CHR 0xD0, CHR 0xBD, CHR 0xD0, CHR 0xBE, CHR 0xD0, CHR 0xB9] @
      '' '' @ [CHR 0xD0, CHR 0xB1, CHR 0xD0, CHR 0xBB, CHR 0xD0, CHR 0xBE, CHR 0xD0,
      CHR 0xBA] @ '': '' @ [CHR 0xD1, CHR 0x80, CHR 0xD0, CHR 0xB5, CHR 0xD0, CHR 0xB0,
      CHR 0xD0, CHR 0xB1, CHR 0xD0, CHR 0xB8, CHR 0xD0, CHR 0xBB, CHR 0xD0, CHR 0xB8,
      CHR 0xD1, CHR 0x82, CHR 0xD0, CHR 0xB0, CHR 0xD1, CHR 0x86, CHR 0xD0, CHR 0xB8,
      CHR 0xD1, CHR 0x8F] @ ''/'' @ [CHR 0xD0, CHR 0xBC, CHR 0xD0, CHR 0xBE, CHR 0xD0,
      CHR 0xB1, CHR 0xD0, CHR 0xB8, CHR 0xD0, CHR 0xBB, CHR 0xD0, CHR 0xB8, CHR 0xD1,
      CHR 0x82, CHR 0xD0, CHR 0xB8] @ '', '' @ [CHR 0xD0, CHR 0xB4, CHR 0xD0, CHR 0xB2,
      CHR 0xD0, CHR 0xB8, CHR 0xD0, CHR 0xB6, CHR 0xD0, CHR 0xB5, CHR 0xD0, CHR 0xBD,
      CHR 0xD0, CHR 0xB8, CHR 0xD1, CHR 0x8F] @ '' '' @ [CHR 0xD0, CHR 0xBF, CHR 0xD0,
      CHR 0xBB, CHR 0xD0, CHR 0xB0, CHR 0xD0, CHR 0xB2, CHR 0xD0, CHR 0xBD, CHR 0xD1,
      CHR 0x8B, CHR 0xD0, CHR 0xB5] @ '', '' @ [CHR 0xD0, CHR 0xB1, CHR 0xD0, CHR 0xB5,
      CHR 0xD0, CHR 0xB7] @ '' '' @ [CHR 0xD1, CHR 0x80, CHR 0xD1, CHR 0x8B, CHR 0xD0,
      CHR 0xB2, CHR 0xD0, CHR 0xBA, CHR 0xD0, CHR 0xBE, CHR 0xD0, CHR 0xB2] @ ''.''"

definition comment_strength :: string where
  "comment_strength =
     [CHR 0xD0, CHR 0x9E, CHR 0xD1, CHR 0x81, CHR 0xD0, CHR 0xBD, CHR 0xD0, CHR 0xBE,
      CHR 0xD0, CHR 0xB2, CHR 0xD0, CHR 0xBD, CHR 0xD0, CHR 0xBE, CHR 0xD0, CHR 0xB9] @
      '' '' @ [CHR 0xD0, CHR 0xB1, CHR 0xD0, CHR 0xBB, CHR 0xD0, CHR 0xBE, CHR 0xD0,
      CHR 0xBA] @ '': '' @ [CHR 0xD1, CHR 0x81, CHR 0xD0, CHR 0xB8, CHR 0xD0, CHR 0xBB,
      CHR 0xD0, CHR 0xBE, CHR 0xD0, CHR 0xB2, CHR 0xD0, CHR 0xB0, CHR 0xD1, CHR 0x8F] @
      '' '' @ [CHR 0xD1, CHR 0x87, CHR 0xD0, CHR 0xB0, CHR 0xD1, CHR 0x81, CHR 0xD1,
      CHR 0x82, CHR 0xD1, CHR 0x8C] @ '', '' @ [CHR 0xD1, CHR 0x82, CHR 0xD0, CHR 0xB5,
      CHR 0xD1, CHR 0x85, CHR 0xD0, CHR 0xBD, CHR 0xD0, CHR 0xB8, CHR 0xD0, CHR 0xBA,
      CHR 0xD0, CHR 0xB0] @ '' '' @ [CHR 0xD0, CHR 0xB8] @ '' '' @ [CHR 0xD0, CHR 0xBD,
      CHR 0xD0, CHR 0xB5, CHR 0xD0, CHR 0xB1, CHR 0xD0, CHR 0xBE, CHR 0xD0, CHR 0xBB,
      CHR 0xD1, CHR 0x8C, CHR 0xD1, CHR 0x88, CHR 0xD0, CHR 0xBE, CHR 0xD0, CHR 0xB9] @
      '' '' @ [CHR 0xD0, CHR 0xB7, CHR 0xD0, CHR 0xB0, CHR 0xD0, CHR 0xBF, CHR 0xD0,
      CHR 0xB0, CHR 0xD1, CHR 0x81] @ '' '' @ [CHR 0xD0, CHR 0xBF, CHR 0xD0,
      CHR 0xBE] @ '' '' @ [CHR 0xD1, CHR 0x83, CHR 0xD1, CHR 0x81, CHR 0xD0, CHR 0xB8,
      CHR 0xD0, CHR 0xBB, CHR 0xD0, CHR 0xB8, CHR 0xD1, CHR 0x8E] @ ''.''"

definition comment_cooldown :: string where
  "comment_cooldown =
     [CHR 0xD0, CHR 0x97, CHR 0xD0, CHR 0xB0, CHR 0xD0, CHR 0xBC, CHR 0xD0, CHR 0xB8,
      CHR 0xD0, CHR 0xBD, CHR 0xD0, CHR 0xBA, CHR 0xD0, CHR 0xB0] @ ''/'' @ [CHR 0xD1,
      CHR 0x80, CHR 0xD0, CHR 0xB0, CHR 0xD1, CHR 0x81, CHR 0xD1, CHR 0x82, CHR 0xD1,
      CHR 0x8F, CHR 0xD0, CHR 0xB6, CHR 0xD0, CHR 0xBA, CHR 0xD0, CHR 0xB0] @ '': '' @
      [CHR 0xD0, CHR 0xBC, CHR 0xD1, CHR 0x8F, CHR 0xD0, CHR 0xB3, CHR 0xD0, CHR 0xBA,
      CHR 0xD0, CHR 0xB8, CHR 0xD0, CHR 0xB5] @ '' '' @ [CHR 0xD1, CHR 0x81, CHR 0xD1,
      CHR 0x82, CHR 0xD0, CHR 0xB0, CHR 0xD1, CHR 0x82, CHR 0xD0, CHR 0xB8, CHR 0xD1,
      CHR 0x87, CHR 0xD0, CHR 0xB5, CHR 0xD1, CHR 0x81, CHR 0xD0, CHR 0xBA, CHR 0xD0,
      CHR 0xB8, CHR 0xD0, CHR 0xB5] @ '' '' @ [CHR 0xD0, CHR 0xBF, CHR 0xD0, CHR 0xBE,
      CHR 0xD0, CHR 0xB7, CHR 0xD0, CHR 0xB8, CHR 0xD1, CHR 0x86, CHR 0xD0, CHR 0xB8,
      CHR 0xD0, CHR 0xB8] @ '' '' @ [CHR 0xD0, CHR 0xB1, CHR 0xD0, CHR 0xB5, CHR 0xD0,
      CHR 0xB7] @ '' '' @ [CHR 0xD1, CHR 0x81, CHR 0xD0, CHR 0xB8, CHR 0xD0, CHR 0xBB,
      CHR 0xD1, CHR 0x8C, CHR 0xD0, CHR 0xBD, CHR 0xD0, CHR 0xBE, CHR 0xD0, CHR 0xB9] @
      '' '' @ [CHR 0xD0, CHR 0xB1, CHR 0xD0, CHR 0xBE, CHR 0xD0, CHR 0xBB, CHR 0xD0,
      CHR 0xB8] @ ''.''"

definition title_weight_loss :: string where
  \<comment> \<open>UTF-8 bytes of the code points U+041F U+043E U+0445 U+0443 U+0434 U+0435 U+043D U+0438 U+0435 (weight loss)\<close>
  "title_weight_loss =
     [CHR 0xD0, CHR 0x9F, CHR 0xD0, CHR 0xBE, CHR 0xD1, CHR 0x85, CHR 0xD1, CHR 0x83,
      CHR 0xD0, CHR 0xB4, CHR 0xD0, CHR 0xB5, CHR 0xD0, CHR 0xBD, CHR 0xD0, CHR 0xB8,
      CHR 0xD0, CHR 0xB5]"

definition title_muscle_gain :: string where
  \<comment> \<open>UTF-8 bytes of the code points U+041D U+0430 U+0431 U+043E U+0440 U+0020 U+043C U+0430 U+0441 U+0441 U+044B (mass gain)\<close>
  "title_muscle_gain =
     [CHR 0xD0, CHR 0x9D, CHR 0xD0, CHR 0xB0, CHR 0xD0, CHR 0xB1, CHR 0xD0, CHR 0xBE,
      CHR 0xD1, CHR 0x80] @ '' '' @ [CHR 0xD0, CHR 0xBC, CHR 0xD0, CHR 0xB0, CHR 0xD1,
      CHR 0x81, CHR 0xD1, CHR 0x81, CHR 0xD1, CHR 0x8B]"

definition title_maintenance :: string where
  \<comment> \<open>UTF-8 bytes of the code points U+041F U+043E U+0434 U+0434 U+0435 U+0440 U+0436 U+0430 U+043D U+0438 U+0435 U+0020 U+0444 U+043E U+0440 U+043C U+044B (keeping fit)\<close>
  "title_maintenance =
     [CHR 0xD0, CHR 0x9F, CHR 0xD0, CHR 0xBE, CHR 0xD0, CHR 0xB4, CHR 0xD0, CHR 0xB4,
      CHR 0xD0, CHR 0xB5, CHR 0xD1, CHR 0x80, CHR 0xD0, CHR 0xB6, CHR 0xD0, CHR 0xB0,
      CHR 0xD0, CHR 0xBD, CHR 0xD0, CHR 0xB8, CHR 0xD0, CHR 0xB5] @ '' '' @ [CHR 0xD1,
      CHR 0x84, CHR 0xD0, CHR 0xBE, CHR 0xD1, CHR 0x80, CHR 0xD0, CHR 0xBC, CHR 0xD1,
      CHR 0x8B]"

definition title_endurance :: string where
  \<comment> \<open>UTF-8 bytes of the code points U+0412 U+044B U+043D U+043E U+0441 U+043B U+0438 U+0432 U+043E U+0441 U+0442 U+044C (endurance)\<close>
  "title_endurance =
     [CHR 0xD0, CHR 0x92, CHR 0xD1, CHR 0x8B, CHR 0xD0, CHR 0xBD, CHR 0xD0, CHR 0xBE,
      CHR 0xD1, CHR 0x81, CHR 0xD0, CHR 0xBB, CHR 0xD0, CHR 0xB8, CHR 0xD0, CHR 0xB2,
      CHR 0xD0, CHR 0xBE, CHR 0xD1, CHR 0x81, CHR 0xD1, CHR 0x82, CHR 0xD1, CHR 0x8C]"

definition title_back_health :: string where
  \<comment> \<open>UTF-8 bytes of the code points U+0421 U+043F U+0438 U+043D U+0430 (back)\<close>
  "title_back_health =
     [CHR 0xD0, CHR 0xA1, CHR 0xD0, CHR 0xBF, CHR 0xD0, CHR 0xB8, CHR 0xD0, CHR 0xBD,
      CHR 0xD0, CHR 0xB0]"

definition title_general_health :: string where
  \<comment> \<open>UTF-8 bytes of the code points U+041E U+0431 U+0449 U+0435 U+0435 U+0020 U+0437 U+0434 U+043E U+0440 U+043E U+0432 U+044C U+0435 (general health)\<close>
  "title_general_health =
     [CHR 0xD0, CHR 0x9E, CHR 0xD0, CHR 0xB1, CHR 0xD1, CHR 0x89, CHR 0xD0, CHR 0xB5,
      CHR 0xD0, CHR 0xB5] @ '' '' @ [CHR 0xD0, CHR 0xB7, CHR 0xD0, CHR 0xB4, CHR 0xD0,
      CHR 0xBE, CHR 0xD1, CHR 0x80, CHR 0xD0, CHR 0xBE, CHR 0xD0, CHR 0xB2, CHR 0xD1,
      CHR 0x8C, CHR 0xD0, CHR 0xB5]"

definition title_default :: string where
  \<comment> \<open>UTF-8 bytes of the code points U+0422 U+0440 U+0435 U+043D U+0438 U+0440 U+043E U+0432 U+043A U+0430 (training)\<close>
  "title_default =
     [CHR 0xD0, CHR 0xA2, CHR 0xD1, CHR 0x80, CHR 0xD0, CHR 0xB5, CHR 0xD0, CHR 0xBD,
      CHR 0xD0, CHR 0xB8, CHR 0xD1, CHR 0x80, CHR 0xD0, CHR 0xBE, CHR 0xD0, CHR 0xB2,
      CHR 0xD0, CHR 0xBA, CHR 0xD0, CHR 0xB0]"

definition title_day_sep :: string where
  \<comment> \<open>UTF-8 bytes of the code points U+0020 U+2014 U+0020 U+0434 U+0435 U+043D U+044C U+0020 (' - day ')\<close>
  "title_day_sep =
     '' '' @ [CHR 0xE2, CHR 0x80, CHR 0x94] @ '' '' @ [CHR 0xD0, CHR 0xB4, CHR 0xD0,
      CHR 0xB5, CHR 0xD0, CHR 0xBD, CHR 0xD1, CHR 0x8C] @ '' ''"

section \<open>The data model (models.py)\<close>

text \<open>
  The dataclasses of the source, field by field. Field names that several classes share
  (\<open>id\<close>, \<open>name\<close>, \<open>goal\<close>) carry a prefix, since record fields are constants of the
  theory. Python's \<open>float\<close> fields are \<open>real\<close>; no function below computes with them.
\<close>

record UserProfile =
  gender :: string
  age :: int
  weight_kg :: real
  height_cm :: "real option"
  activity_level :: string
  goal :: string
  experience_level :: string
  preferred_location :: string
  available_equipment :: "string list"
  health_issues :: "string list"
  max_sessions_per_week :: int

record Exercise =
  ex_id :: string
  ex_name :: string
  muscle_groups :: "string list"
  equipment :: "string list"
  difficulty :: string
  exercise_type :: string
  locations :: "string list"
  contraindications :: "string list"
  description :: string

record PlannedExercise =
  exercise_id :: string
  sets :: int
  reps :: "int option"
  duration_seconds :: "int option"
  comment :: string

record TrainingSession =
  week_index :: int
  day_index :: int
  title :: string
  exercises :: "PlannedExercise list"

record TrainingPlan =
  plan_goal :: string
  sessions_per_week :: int
  total_weeks :: int
  sessions :: "TrainingSession list"

section \<open>The condition registry (conditions.py)\<close>

record Condition =
  cond_id :: string
  cond_name :: string
  cond_group :: string
  sessions_per_week_max :: "int option"
  cardio_level :: "string option"
  cond_notes :: string

text \<open>
  One object of conditions.json, as \<open>Condition.from_dict\<close> reads it: \<open>None\<close> is a key
  that is absent. Only \<open>data["id"]\<close> raises (KeyError); every other key has a default.
\<close>

record RawCondition =
  raw_id :: "string option"
  raw_name :: "string option"
  raw_group :: "string option"
  raw_sessions_per_week_max :: "int option"
  raw_cardio_level :: "string option"
  raw_notes :: "string option"

definition Condition_from_dict :: "RawCondition \<Rightarrow> Condition option" where
  "Condition_from_dict data =
     (case raw_id data of
        None \<Rightarrow> None
      | Some i \<Rightarrow>
          Some \<lparr>cond_id = i,
                cond_name = (case raw_name data of None \<Rightarrow> [] | Some n \<Rightarrow> n),
                cond_group = (case raw_group data of None \<Rightarrow> ''other'' | Some g \<Rightarrow> g),
                sessions_per_week_max = raw_sessions_per_week_max data,
                cardio_level = raw_cardio_level data,
                cond_notes = (case raw_notes data of None \<Rightarrow> [] | Some n \<Rightarrow> n)\<rparr>)"

text \<open>
  The registry is the dict \<open>_conditions_by_id\<close>: an association list in insertion order,
  where storing under a key that is present replaces its value (\<open>AList.update\<close>).
  The file conditions.json is not part of the sources: it is the parameter \<open>cfile\<close> of
  every function that loads it, \<open>None\<close> when the file does not exist. The module-level
  cache is the state \<open>cache\<close>, passed in and returned.
\<close>

type_synonym registry = "(string \<times> Condition) list"

fun load_items :: "RawCondition list \<Rightarrow> registry \<Rightarrow> registry" where
  "load_items [] result = result"
| "load_items (item # raw) result =
     (case Condition_from_dict item of
        None \<Rightarrow> load_items raw result
      | Some cond \<Rightarrow> load_items raw (AList.update (cond_id cond) cond result))"

definition load_conditions ::
  "RawCondition list option \<Rightarrow> registry option \<Rightarrow> registry \<times> registry option" where
  "load_conditions cfile cache =
     (case cache of
        Some conds \<Rightarrow> (conds, cache)
      | None \<Rightarrow>
          (case cfile of
             None \<Rightarrow> ([], Some [])
           | Some raw \<Rightarrow> (let result = load_items raw [] in (result, Some result))))"

definition known_condition_ids ::
  "RawCondition list option \<Rightarrow> registry option \<Rightarrow> string set \<times> registry option" where
  "known_condition_ids cfile cache =
     (let (conds, cache1) = load_conditions cfile cache in (set (map fst conds), cache1))"

definition extract_condition_ids ::
  "RawCondition list option \<Rightarrow> registry option \<Rightarrow> string list
     \<Rightarrow> string set \<times> registry option" where
  "extract_condition_ids cfile cache issues =
     (let (known, cache1) = known_condition_ids cfile cache
      in ({item \<in> set issues. item \<in> known}, cache1))"

text \<open>
  \<open>limits\<close> is a list in the source, filled while iterating over a set; only its emptiness
  and its minimum are used, so it is a set here.
\<close>

definition get_sessions_limit_for_profile ::
  "RawCondition list option \<Rightarrow> registry option \<Rightarrow> UserProfile
     \<Rightarrow> int option \<times> registry option" where
  "get_sessions_limit_for_profile cfile cache profile =
     (let (cond_ids, cache1) = extract_condition_ids cfile cache (health_issues profile)
      in if cond_ids = {} then (None, cache1)
         else
           let (conditions, cache2) = load_conditions cfile cache1;
               limits = (\<Union>cid \<in> cond_ids.
                   case map_of conditions cid of
                     None \<Rightarrow> {}
                   | Some cond \<Rightarrow>
                       (case sessions_per_week_max cond of None \<Rightarrow> {} | Some l \<Rightarrow> {l}))
           in if limits = {} then (None, cache2) else (Some (Min limits), cache2))"

definition group_tags :: "string \<Rightarrow> string set" where
  "group_tags g =
     (if g = ''cardio'' then {tag_heart}
      else if g = ''joint'' then {tag_joints}
      else if g = ''spine'' then {tag_back}
      else {})"

definition diagnosis_tags :: "string \<Rightarrow> string set" where
  "diagnosis_tags cid =
     (if cid = ''joint_knee_arthrosis'' then {tag_knees, tag_joints}
      else if cid = ''joint_hip_arthrosis'' then {tag_hips, tag_joints}
      else if cid = ''joint_shoulder_impingement'' then {tag_shoulders, tag_joints}
      else if cid = ''joint_elbow_wrist_pain'' then {tag_elbows, tag_wrists, tag_joints}
      else if cid = ''spine_lumbar_pain'' then {tag_lower_back, tag_back}
      else if cid = ''spine_cervical_pain'' then {tag_neck, tag_back}
      else if cid = ''metabolic_obesity'' then {tag_obesity}
      else if cid = ''metabolic_diabetes_type2'' then {tag_diabetes}
      else if cid = ''resp_asthma_mild'' then {tag_asthma}
      else if cid = ''other_pregnancy'' then {tag_pregnancy}
      else if cid = ''other_post_surgery_general'' then {tag_post_surgery}
      else {})"

definition get_risk_tags_for_profile ::
  "RawCondition list option \<Rightarrow> registry option \<Rightarrow> UserProfile
     \<Rightarrow> string set \<times> registry option" where
  "get_risk_tags_for_profile cfile cache profile =
     (let raw = set (health_issues profile);
          (known_ids, cache1) = known_condition_ids cfile cache;
          tags = {item \<in> raw. item \<notin> known_ids};
          (conditions, cache2) = load_conditions cfile cache1;
          (cids, cache3) = extract_condition_ids cfile cache2 (health_issues profile)
      in (tags \<union> (\<Union>cid \<in> cids.
                case map_of conditions cid of
                  None \<Rightarrow> {}
                | Some cond \<Rightarrow> group_tags (cond_group cond) \<union> diagnosis_tags cid),
          cache3))"

section \<open>Cadence (recommender.py)\<close>

text \<open>
  Python's \<open>round\<close> on a float rounds to the nearest integer and a tie to the even one.
  The scores below are multiples of one half between 0.5 and 5.5, which a float holds
  exactly, so \<open>real\<close> arithmetic is the float arithmetic here.
\<close>

definition py_round :: "real \<Rightarrow> int" where
  "py_round x =
     (let f = \<lfloor>x\<rfloor>; d = x - of_int f
      in if d < 1 / 2 then f else if 1 / 2 < d then f + 1 else if even f then f else f + 1)"

definition rule_based_sessions_per_week :: "UserProfile \<Rightarrow> int" where
  "rule_based_sessions_per_week profile =
     (let score = (3 :: real);
          score = (if activity_level profile = ''low'' then score - 1
                   else if activity_level profile = ''high'' then score + 1
                   else score);
          score = (if goal profile \<in> {''muscle_gain'', ''endurance''} then score + 1
                   else if goal profile \<in> {''back_health'', ''general_health''} then score - 0
                   else score);
          score = (if tag_heart \<in> set (health_issues profile)
                      \<or> tag_joints \<in> set (health_issues profile)
                   then score - 1 else score);
          score = (if experience_level profile = ''beginner'' then score - 1 / 2
                   else if experience_level profile = ''advanced'' then score + 1 / 2
                   else score)
      in max 1 (min 5 (py_round score)))"

definition rule_based_total_weeks :: "UserProfile \<Rightarrow> int" where
  "rule_based_total_weeks profile =
     (if goal profile = ''weight_loss'' then 8
      else if goal profile = ''muscle_gain'' then 12
      else if goal profile = ''endurance'' then 8
      else if goal profile = ''maintenance'' then 6
      else 6)"

text \<open>
  \<open>max_sessions_per_week\<close> is a field of the dataclass, so \<open>hasattr\<close> holds; the second
  conjunct is the truth value of an int: it is false at 0, and then no cap is applied.
\<close>

definition recommend_sessions_per_week ::
  "RawCondition list option \<Rightarrow> registry option \<Rightarrow> UserProfile \<Rightarrow> int \<times> registry option" where
  "recommend_sessions_per_week cfile cache profile =
     (let base = rule_based_sessions_per_week profile;
          val = base;
          val = (if max_sessions_per_week profile \<noteq> 0
                 then min val (max_sessions_per_week profile) else val);
          (cond_limit, cache1) = get_sessions_limit_for_profile cfile cache profile;
          val = (case cond_limit of None \<Rightarrow> val | Some l \<Rightarrow> min val l)
      in (max 1 (min 7 val), cache1))"

definition recommend_total_weeks :: "UserProfile \<Rightarrow> int" where
  "recommend_total_weeks profile = rule_based_total_weeks profile"

section \<open>Library functions the source calls\<close>

text \<open>
  Four functions of the Python libraries are parameters of the model:
  \<^item> \<open>str_lower\<close> is \<open>str.lower\<close> (Unicode lower-casing);
  \<^item> \<open>tfidf_score docs query i\<close> is entry \<open>i\<close> of \<open>(X @ q_vec.T).toarray().ravel()\<close>, where
    \<open>X\<close> is scikit-learn's \<open>TfidfVectorizer\<close> fitted on \<open>docs\<close> and \<open>q_vec\<close> its transform of
    \<open>query\<close>: the relevance of document \<open>i\<close>. It is a float in the source and a \<open>real\<close> here;
  \<^item> \<open>argsort\<close> is \<open>numpy.argsort\<close> with its default sorting kind;
  \<^item> \<open>other_token doc\<close> says that the vectorizer finds a token in \<open>doc\<close> that involves a
    character outside ASCII (Unicode's character tables decide it).
  What numpy promises of \<open>argsort\<close> is \<open>argsort_ok\<close>: the result lists every index once,
  and the keys read in that order ascend. The order of equal keys is left open, as
  numpy's default kind leaves it.
\<close>

record externals =
  str_lower :: "string \<Rightarrow> string"
  tfidf_score :: "string list \<Rightarrow> string \<Rightarrow> nat \<Rightarrow> real"
  argsort :: "real list \<Rightarrow> nat list"
  other_token :: "string \<Rightarrow> bool"

definition argsort_ok :: "(real list \<Rightarrow> nat list) \<Rightarrow> bool" where
  "argsort_ok f =
     (\<forall>keys. mset (f keys) = mset [0..<length keys] \<and> sorted (map (\<lambda>i. keys ! i) (f keys)))"

fun is_prefix :: "string \<Rightarrow> string \<Rightarrow> bool" where
  "is_prefix [] hay = True"
| "is_prefix (c # cs) [] = False"
| "is_prefix (c # cs) (h # hs) = (c = h \<and> is_prefix cs hs)"

text \<open>\<open>str_contains needle hay\<close> is Python's \<open>needle in hay\<close> on strings.\<close>

fun str_contains :: "string \<Rightarrow> string \<Rightarrow> bool" where
  "str_contains needle [] = (needle = [])"
| "str_contains needle (h # hs) = (is_prefix needle (h # hs) \<or> str_contains needle hs)"

text \<open>\<open>py_join sep parts\<close> is \<open>sep.join(parts)\<close>.\<close>

fun py_join :: "string \<Rightarrow> string list \<Rightarrow> string" where
  "py_join sep [] = []"
| "py_join sep [p] = p"
| "py_join sep (p # q # ps) = p @ sep @ py_join sep (q # ps)"

text \<open>\<open>py_slice_to xs m\<close> is the slice \<open>xs[:m]\<close>; a negative \<open>m\<close> counts from the end.\<close>

definition py_slice_to :: "'a list \<Rightarrow> int \<Rightarrow> 'a list" where
  "py_slice_to xs m = (if 0 \<le> m then take (nat m) xs else take (length xs - nat (- m)) xs)"

function str_nat :: "nat \<Rightarrow> string" where
  "str_nat n = (if n < 10 then [''0123456789'' ! n] else str_nat (n div 10) @ [''0123456789'' ! (n mod 10)])"
  by pat_completeness auto
termination
  by (relation "measure (\<lambda>n. n)") auto

text \<open>\<open>str_int i\<close> is \<open>str(i)\<close> for an int, as the f-string of the title formats it.\<close>

definition str_int :: "int \<Rightarrow> string" where
  "str_int i = (if i < 0 then ''-'' @ str_nat (nat (- i)) else str_nat (nat i))"

section \<open>The ranker (exercise\_ml.py)\<close>

definition GOAL_QUERIES :: "string \<Rightarrow> string option" where
  "GOAL_QUERIES g =
     (if g = ''weight_loss'' then Some query_weight_loss
      else if g = ''muscle_gain'' then Some query_muscle_gain
      else if g = ''maintenance'' then Some query_maintenance
      else if g = ''endurance'' then Some query_endurance
      else if g = ''back_health'' then Some query_back_health
      else if g = ''general_health'' then Some query_general_health
      else None)"

definition build_corpus :: "Exercise list \<Rightarrow> string list" where
  "build_corpus exs =
     map (\<lambda>ex.
        let parts = [ex_name ex]
              @ (if description ex \<noteq> [] then [description ex] else [])
              @ muscle_groups ex @ equipment ex @ [exercise_type ex]
        in py_join '' '' (filter (\<lambda>p. p \<noteq> []) parts)) exs"

text \<open>
  \<open>TfidfVectorizer().fit_transform(docs)\<close> raises \<open>ValueError\<close> ("empty vocabulary") when no
  document yields a token, and the source does not catch it. With the default settings
  a token is a run of at least two word characters of the lower-cased document. Two
  adjacent ASCII letters, digits or underscores always make one (lower-casing keeps
  them so): that is \<open>has_ascii_token\<close>, decided on the bytes. Any other token involves a
  character outside ASCII and is left to the parameter \<open>other_token\<close>.
\<close>

datatype error = ValueError

definition ascii_word_char :: "char \<Rightarrow> bool" where
  "ascii_word_char c =
     ((CHR ''a'' \<le> c \<and> c \<le> CHR ''z'') \<or> (CHR ''A'' \<le> c \<and> c \<le> CHR ''Z'')
      \<or> (CHR ''0'' \<le> c \<and> c \<le> CHR ''9'') \<or> c = CHR ''_'')"

fun has_ascii_token :: "string \<Rightarrow> bool" where
  "has_ascii_token (a # b # cs) =
     ((ascii_word_char a \<and> ascii_word_char b) \<or> has_ascii_token (b # cs))"
| "has_ascii_token cs = False"

definition has_token :: "externals \<Rightarrow> string \<Rightarrow> bool" where
  "has_token ext doc = (has_ascii_token doc \<or> other_token ext doc)"

definition rank_exercises_for_goal ::
  "externals \<Rightarrow> string \<Rightarrow> Exercise list \<Rightarrow> int option \<Rightarrow> error + Exercise list" where
  "rank_exercises_for_goal ext g exs max_items =
     (if length exs \<le> 1 then Inr exs
      else
        let docs = build_corpus exs
        in if \<not> list_ex (has_token ext) docs then Inl ValueError
           else
             let query = (case GOAL_QUERIES g of Some q \<Rightarrow> q | None \<Rightarrow> DEFAULT_QUERY);
                 scores = map (tfidf_score ext docs query) [0..<length docs];
                 order = argsort ext (map uminus scores)
             in case max_items of
                  None \<Rightarrow> Inr (map (\<lambda>i. exs ! i) order)
                | Some m \<Rightarrow> Inr (map (\<lambda>i. exs ! i) (take (nat (max 1 m)) order)))"

section \<open>The eligibility filter (recommender.py)\<close>

definition difficulty_score :: "string \<Rightarrow> int" where
  "difficulty_score level =
     (if level = ''beginner'' then 1 else if level = ''intermediate'' then 2 else 3)"

text \<open>
  The body of the loop of \<open>_select_allowed_exercises\<close>: \<open>False\<close> where the source
  continues with the next exercise, \<open>True\<close> where it appends.
\<close>

definition exercise_allowed ::
  "externals \<Rightarrow> UserProfile \<Rightarrow> int \<Rightarrow> string set \<Rightarrow> string set \<Rightarrow> Exercise \<Rightarrow> bool" where
  "exercise_allowed ext profile exp_score risk_tags user_eq ex =
     (if preferred_location profile = ''home'' \<and> ''home'' \<notin> set (locations ex) then False
      else if preferred_location profile = ''gym'' \<and> ''gym'' \<notin> set (locations ex) then False
      else
        let ex_eq = str_lower ext ` set (equipment ex)
        in if (if preferred_location profile = ''home''
               then ex_eq \<noteq> {} \<and> (user_eq = {} \<or> ex_eq \<inter> user_eq = {})
               else ex_eq \<noteq> {} \<and> user_eq \<noteq> {} \<and> ex_eq \<inter> user_eq = {})
           then False
           else if difficulty_score (difficulty ex) > exp_score + 1 then False
           else if risk_tags \<inter> set (contraindications ex) \<noteq> {} then False
           else True)"

definition select_allowed_exercises ::
  "externals \<Rightarrow> RawCondition list option \<Rightarrow> registry option \<Rightarrow> UserProfile \<Rightarrow> Exercise list
     \<Rightarrow> Exercise list \<times> registry option" where
  "select_allowed_exercises ext cfile cache profile exs =
     (let exp_score = difficulty_score (experience_level profile);
          (risk_tags, cache1) = get_risk_tags_for_profile cfile cache profile;
          user_eq = str_lower ext ` set (available_equipment profile)
      in (filter (exercise_allowed ext profile exp_score risk_tags user_eq) exs, cache1))"

section \<open>Picking exercises for a block (recommender.py)\<close>

text \<open>
  Every caller passes a set for \<open>used_global\<close> and the profile's goal, a string, for
  \<open>goal\<close>; \<open>if used_global\<close> and \<open>if goal\<close> test that they are not empty. An exception of
  the ranker passes through.
\<close>

definition pick_exercises ::
  "externals \<Rightarrow> Exercise list \<Rightarrow> string \<Rightarrow> string option \<Rightarrow> int \<Rightarrow> string \<Rightarrow> string set
     \<Rightarrow> error + Exercise list" where
  "pick_exercises ext all_ex etype muscle_keyword max_items g used_global =
     (let filtered = filter (\<lambda>ex. exercise_type ex = etype \<and>
              (case muscle_keyword of
                 None \<Rightarrow> True
               | Some kw \<Rightarrow> list_ex (\<lambda>mg. str_contains kw mg) (muscle_groups ex))) all_ex
      in if filtered = [] then Inr []
         else
           let filtered =
                (if used_global \<noteq> {}
                 then (let unused = filter (\<lambda>ex. ex_id ex \<notin> used_global) filtered
                       in if unused \<noteq> [] then unused else filtered)
                 else filtered)
           in if g \<noteq> [] then rank_exercises_for_goal ext g filtered (Some max_items)
              else Inr (py_slice_to (sort_key ex_id filtered) max_items))"

section \<open>Plan generation (recommender.py)\<close>

definition sets_reps_for_strength :: "string \<Rightarrow> int \<times> int" where
  "sets_reps_for_strength level =
     (if level = ''beginner'' then (2, 12)
      else if level = ''intermediate'' then (3, 10)
      else (4, 8))"

definition duration_for_cardio_seconds :: "string \<Rightarrow> int" where
  "duration_for_cardio_seconds level =
     (if level = ''beginner'' then 8 * 60
      else if level = ''intermediate'' then 12 * 60
      else 18 * 60)"

definition exercise_priority :: "externals \<Rightarrow> Exercise \<Rightarrow> int" where
  "exercise_priority ext ex =
     (let name = str_lower ext (ex_name ex)
      in if str_contains ''squat'' name then 0
         else if str_contains ''deadlift'' name then 1
         else if str_contains ''bench press'' name then 2
         else if str_contains ''bench'' name \<and> str_contains ''press'' name then 3
         else if str_contains ''row'' name \<or> str_contains ''pulldown'' name
                 \<or> str_contains ''pull-up'' name \<or> str_contains ''pull up'' name then 4
         else if str_contains ''lunge'' name \<or> str_contains ''step-up'' name
                 \<or> str_contains ''step up'' name then 5
         else if exercise_type ex = ''strength'' then 10
         else if exercise_type ex = ''cardio'' then 20
         else 30)"

definition build_session_title :: "UserProfile \<Rightarrow> int \<Rightarrow> string" where
  "build_session_title profile index_within_week =
     (let base =
        (if goal profile = ''weight_loss'' then title_weight_loss
         else if goal profile = ''muscle_gain'' then title_muscle_gain
         else if goal profile = ''maintenance'' then title_maintenance
         else if goal profile = ''endurance'' then title_endurance
         else if goal profile = ''back_health'' then title_back_health
         else if goal profile = ''general_health'' then title_general_health
         else title_default)
      in base @ title_day_sep @ str_int index_within_week)"

text \<open>
  The progression of a week \<open>w\<close>: the sets, the repetitions and the cardio duration of its
  sessions. The source computes \<open>int(cardio_base * 1.1)\<close> and \<open>int(cardio_base * 0.9)\<close> in
  floats; \<open>cardio_base\<close> is 480, 720 or 1080, and for each of them the float product
  truncates to the integer quotient written here (528, 792, 1188 and 432, 648, 972).
\<close>

definition week_progression :: "UserProfile \<Rightarrow> int \<Rightarrow> int \<times> int \<times> int" where
  "week_progression profile w =
     (let (sets_default, reps_default) = sets_reps_for_strength (experience_level profile);
          cardio_base = duration_for_cardio_seconds (experience_level profile);
          cycle_week = (w - 1) mod 4 + 1
      in if cycle_week \<in> {2, 3}
         then (sets_default, reps_default + 1, (cardio_base * 11) div 10)
         else if cycle_week = 4
         then (sets_default, max (reps_default - 1) (max 6 (reps_default - 2)),
               (cardio_base * 9) div 10)
         else (sets_default, reps_default, cardio_base))"

text \<open>
  The main block of day \<open>d\<close>, by the goal's template, before padding. The picks run in
  the order of the source, and the first exception ends the run: \<open>then_pick\<close> appends
  the next pick to the exercises picked so far.
\<close>

definition then_pick :: "error + Exercise list \<Rightarrow> error + Exercise list \<Rightarrow> error + Exercise list" where
  "then_pick first next_pick =
     (case first of
        Inl e \<Rightarrow> Inl e
      | Inr xs \<Rightarrow> (case next_pick of Inl e \<Rightarrow> Inl e | Inr ys \<Rightarrow> Inr (xs @ ys)))"

definition template_main_block ::
  "externals \<Rightarrow> UserProfile \<Rightarrow> Exercise list \<Rightarrow> int \<Rightarrow> string set \<Rightarrow> error + Exercise list" where
  "template_main_block ext profile allowed d used_global =
     (let pick = (\<lambda>etype kw n. pick_exercises ext allowed etype kw n (goal profile) used_global)
      in if goal profile = ''muscle_gain''
         then
           let day_in_cycle = (d - 1) mod 3 + 1
           in if day_in_cycle = 1
              then then_pick (pick ''strength'' (Some kw_chest) 4)
                     (pick ''strength'' (Some tag_shoulders) 2)
              else if day_in_cycle = 2
              then then_pick (pick ''strength'' (Some kw_legs) 4)
                     (pick ''strength'' (Some kw_abs) 2)
              else then_pick (pick ''strength'' (Some tag_back) 4)
                     (pick ''strength'' (Some kw_biceps) 2)
         else if goal profile = ''back_health''
         then then_pick (pick ''rehab'' None 4) (pick ''mobility'' None 3)
         else if goal profile = ''endurance''
         then then_pick (pick ''cardio'' None 4) (pick ''strength'' (Some kw_legs) 2)
         else if goal profile = ''weight_loss''
         then then_pick (pick ''strength'' None 5) (pick ''cardio'' None 3)
         else then_pick (then_pick (pick ''strength'' None 3) (pick ''cardio'' None 2))
                (pick ''mobility'' None 2))"

definition min_main_for :: "UserProfile \<Rightarrow> int" where
  "min_main_for profile =
     (if goal profile = ''muscle_gain'' then 5
      else if goal profile = ''weight_loss'' then 6
      else if goal profile = ''endurance'' then 4
      else 3)"

text \<open>The main block after padding and the sort by priority (a stable sort, as Python's).\<close>

definition assemble_main_block ::
  "externals \<Rightarrow> UserProfile \<Rightarrow> Exercise list \<Rightarrow> int \<Rightarrow> string set \<Rightarrow> error + Exercise list" where
  "assemble_main_block ext profile allowed d used_global =
     (case template_main_block ext profile allowed d used_global of
        Inl e \<Rightarrow> Inl e
      | Inr main_ex \<Rightarrow>
          (let min_main = min_main_for profile;
               padded =
                 (if int (length main_ex) < min_main
                  then then_pick (Inr main_ex)
                         (pick_exercises ext allowed ''strength'' None
                            (min_main - int (length main_ex)) (goal profile) used_global)
                  else Inr main_ex)
           in (case padded of
                 Inl e \<Rightarrow> Inl e
               | Inr main_ex \<Rightarrow>
                   Inr (if main_ex \<noteq> [] then sort_key (exercise_priority ext) main_ex
                        else main_ex))))"

definition planned_exercise_for :: "int \<Rightarrow> int \<Rightarrow> int \<Rightarrow> Exercise \<Rightarrow> PlannedExercise" where
  "planned_exercise_for main_sets main_reps cardio_duration ex =
     (if exercise_type ex = ''cardio''
      then \<lparr>exercise_id = ex_id ex, sets = 1, reps = None,
            duration_seconds = Some cardio_duration, comment = comment_cardio\<rparr>
      else if exercise_type ex \<in> {''mobility'', ''rehab''}
      then \<lparr>exercise_id = ex_id ex, sets = 2, reps = Some 10,
            duration_seconds = None, comment = comment_mobility\<rparr>
      else \<lparr>exercise_id = ex_id ex, sets = main_sets, reps = Some main_reps,
            duration_seconds = None, comment = comment_strength\<rparr>)"

text \<open>
  The loop over the main block: an exercise whose id the session already holds is
  skipped; otherwise its id enters \<open>used_ids_session\<close> and \<open>used_global\<close> and its
  prescription is appended. The warm-up and cool-down lists of the source are empty
  constants, so the loop over the cool-down does nothing and is left out.
\<close>

fun main_block_loop ::
  "int \<times> int \<times> int \<Rightarrow> Exercise list \<Rightarrow> string set \<times> string set \<times> PlannedExercise list
     \<Rightarrow> string set \<times> string set \<times> PlannedExercise list" where
  "main_block_loop prog [] st = st"
| "main_block_loop prog (ex # rest) (used_ids_session, used_global, planned_exercises) =
     (if ex_id ex \<in> used_ids_session
      then main_block_loop prog rest (used_ids_session, used_global, planned_exercises)
      else main_block_loop prog rest
             (insert (ex_id ex) used_ids_session, insert (ex_id ex) used_global,
              planned_exercises @
                [case prog of (main_sets, main_reps, cardio_duration) \<Rightarrow>
                   planned_exercise_for main_sets main_reps cardio_duration ex]))"

text \<open>
  The body of the loop over the days: the session of week \<open>w\<close>, day \<open>d\<close>. The loops stop at
  the first exception.
\<close>

definition build_session ::
  "externals \<Rightarrow> UserProfile \<Rightarrow> Exercise list \<Rightarrow> int \<Rightarrow> int \<Rightarrow> string set
     \<Rightarrow> error + TrainingSession \<times> string set" where
  "build_session ext profile allowed w d used_global =
     (case assemble_main_block ext profile allowed d used_global of
        Inl e \<Rightarrow> Inl e
      | Inr main_ex \<Rightarrow>
          (let (used_ids_session, used_global1, planned_exercises) =
                  main_block_loop (week_progression profile w) main_ex ({}, used_global, [])
           in Inr (\<lparr>week_index = w, day_index = d, title = build_session_title profile d,
                    exercises = planned_exercises\<rparr>, used_global1)))"

fun days_loop ::
  "externals \<Rightarrow> UserProfile \<Rightarrow> Exercise list \<Rightarrow> int \<Rightarrow> int list
     \<Rightarrow> TrainingSession list \<times> string set \<Rightarrow> error + TrainingSession list \<times> string set" where
  "days_loop ext profile allowed w [] st = Inr st"
| "days_loop ext profile allowed w (d # ds) (sessions_acc, used_global) =
     (case build_session ext profile allowed w d used_global of
        Inl e \<Rightarrow> Inl e
      | Inr (session, used_global1) \<Rightarrow>
          days_loop ext profile allowed w ds (sessions_acc @ [session], used_global1))"

fun weeks_loop ::
  "externals \<Rightarrow> UserProfile \<Rightarrow> Exercise list \<Rightarrow> int \<Rightarrow> int list
     \<Rightarrow> TrainingSession list \<times> string set \<Rightarrow> error + TrainingSession list \<times> string set" where
  "weeks_loop ext profile allowed spw [] st = Inr st"
| "weeks_loop ext profile allowed spw (w # ws) st =
     (case days_loop ext profile allowed w [1..spw] st of
        Inl e \<Rightarrow> Inl e
      | Inr st1 \<Rightarrow> weeks_loop ext profile allowed spw ws st1)"

text \<open>
  The result is the plan or the exception; the cache is returned beside it, since the
  registry stays loaded when an exception ends the call.
\<close>

definition generate_training_plan ::
  "externals \<Rightarrow> RawCondition list option \<Rightarrow> registry option \<Rightarrow> UserProfile \<Rightarrow> Exercise list
     \<Rightarrow> (error + TrainingPlan) \<times> registry option" where
  "generate_training_plan ext cfile cache profile exs =
     (let (spw, cache1) = recommend_sessions_per_week cfile cache profile;
          weeks = recommend_total_weeks profile;
          (allowed, cache2) = select_allowed_exercises ext cfile cache1 profile exs
      in (case weeks_loop ext profile allowed spw [1..weeks] ([], {}) of
            Inl e \<Rightarrow> Inl e
          | Inr (sessions_acc, used_global) \<Rightarrow>
              Inr \<lparr>plan_goal = goal profile, sessions_per_week = spw, total_weeks = weeks,
                   sessions = sessions_acc\<rparr>,
          cache2))"

section \<open>What a run returns when nothing is raised\<close>

text \<open>
  The only exception of the plan generator is the \<open>ValueError\<close> of the vectorizer. The
  functions of this section compute what the functions of the source return when it is
  not raised: \<open>ranked_exercises\<close> for \<open>rank_exercises_for_goal\<close>, \<open>picked_exercises\<close> for
  \<open>pick_exercises\<close>, and so on up to \<open>generated_plan\<close> for \<open>generate_training_plan\<close>. The
  lemmas named \<open>\<dots>_returns\<close> below relate the two, and show that plan generation never
  raises.
\<close>

definition ranked_exercises ::
  "externals \<Rightarrow> string \<Rightarrow> Exercise list \<Rightarrow> int option \<Rightarrow> Exercise list" where
  "ranked_exercises ext g exs max_items =
     (if length exs \<le> 1 then exs
      else
        let docs = build_corpus exs;
            query = (case GOAL_QUERIES g of Some q \<Rightarrow> q | None \<Rightarrow> DEFAULT_QUERY);
            scores = map (tfidf_score ext docs query) [0..<length docs];
            order = argsort ext (map uminus scores)
        in case max_items of
             None \<Rightarrow> map (\<lambda>i. exs ! i) order
           | Some m \<Rightarrow> map (\<lambda>i. exs ! i) (take (nat (max 1 m)) order))"

definition picked_exercises ::
  "externals \<Rightarrow> Exercise list \<Rightarrow> string \<Rightarrow> string option \<Rightarrow> int \<Rightarrow> string \<Rightarrow> string set
     \<Rightarrow> Exercise list" where
  "picked_exercises ext all_ex etype muscle_keyword max_items g used_global =
     (let filtered = filter (\<lambda>ex. exercise_type ex = etype \<and>
              (case muscle_keyword of
                 None \<Rightarrow> True
               | Some kw \<Rightarrow> list_ex (\<lambda>mg. str_contains kw mg) (muscle_groups ex))) all_ex
      in if filtered = [] then []
         else
           let filtered =
                (if used_global \<noteq> {}
                 then (let unused = filter (\<lambda>ex. ex_id ex \<notin> used_global) filtered
                       in if unused \<noteq> [] then unused else filtered)
                 else filtered)
           in if g \<noteq> [] then ranked_exercises ext g filtered (Some max_items)
              else py_slice_to (sort_key ex_id filtered) max_items)"

definition template_picks ::
  "externals \<Rightarrow> UserProfile \<Rightarrow> Exercise list \<Rightarrow> int \<Rightarrow> string set \<Rightarrow> Exercise list" where
  "template_picks ext profile allowed d used_global =
     (let pick = (\<lambda>etype kw n. picked_exercises ext allowed etype kw n (goal profile) used_global)
      in if goal profile = ''muscle_gain''
         then
           let day_in_cycle = (d - 1) mod 3 + 1
           in if day_in_cycle = 1
              then pick ''strength'' (Some kw_chest) 4 @ pick ''strength'' (Some tag_shoulders) 2
              else if day_in_cycle = 2
              then pick ''strength'' (Some kw_legs) 4 @ pick ''strength'' (Some kw_abs) 2
              else pick ''strength'' (Some tag_back) 4 @ pick ''strength'' (Some kw_biceps) 2
         else if goal profile = ''back_health''
         then pick ''rehab'' None 4 @ pick ''mobility'' None 3
         else if goal profile = ''endurance''
         then pick ''cardio'' None 4 @ pick ''strength'' (Some kw_legs) 2
         else if goal profile = ''weight_loss''
         then pick ''strength'' None 5 @ pick ''cardio'' None 3
         else pick ''strength'' None 3 @ pick ''cardio'' None 2 @ pick ''mobility'' None 2)"

definition padded_block ::
  "externals \<Rightarrow> UserProfile \<Rightarrow> Exercise list \<Rightarrow> int \<Rightarrow> string set \<Rightarrow> Exercise list" where
  "padded_block ext profile allowed d used_global =
     (let main_ex = template_picks ext profile allowed d used_global;
          min_main = min_main_for profile;
          main_ex =
            (if int (length main_ex) < min_main
             then main_ex @ picked_exercises ext allowed ''strength'' None
                    (min_main - int (length main_ex)) (goal profile) used_global
             else main_ex)
      in if main_ex \<noteq> [] then sort_key (exercise_priority ext) main_ex else main_ex)"

definition built_session ::
  "externals \<Rightarrow> UserProfile \<Rightarrow> Exercise list \<Rightarrow> int \<Rightarrow> int \<Rightarrow> string set
     \<Rightarrow> TrainingSession \<times> string set" where
  "built_session ext profile allowed w d used_global =
     (let main_ex = padded_block ext profile allowed d used_global;
          (used_ids_session, used_global1, planned_exercises) =
             main_block_loop (week_progression profile w) main_ex ({}, used_global, [])
      in (\<lparr>week_index = w, day_index = d, title = build_session_title profile d,
            exercises = planned_exercises\<rparr>, used_global1))"

fun days_sessions ::
  "externals \<Rightarrow> UserProfile \<Rightarrow> Exercise list \<Rightarrow> int \<Rightarrow> int list
     \<Rightarrow> TrainingSession list \<times> string set \<Rightarrow> TrainingSession list \<times> string set" where
  "days_sessions ext profile allowed w [] st = st"
| "days_sessions ext profile allowed w (d # ds) (sessions_acc, used_global) =
     (let (session, used_global1) = built_session ext profile allowed w d used_global
      in days_sessions ext profile allowed w ds (sessions_acc @ [session], used_global1))"

fun weeks_sessions ::
  "externals \<Rightarrow> UserProfile \<Rightarrow> Exercise list \<Rightarrow> int \<Rightarrow> int list
     \<Rightarrow> TrainingSession list \<times> string set \<Rightarrow> TrainingSession list \<times> string set" where
  "weeks_sessions ext profile allowed spw [] st = st"
| "weeks_sessions ext profile allowed spw (w # ws) st =
     weeks_sessions ext profile allowed spw ws (days_sessions ext profile allowed w [1..spw] st)"

definition generated_plan ::
  "externals \<Rightarrow> RawCondition list option \<Rightarrow> registry option \<Rightarrow> UserProfile \<Rightarrow> Exercise list
     \<Rightarrow> TrainingPlan \<times> registry option" where
  "generated_plan ext cfile cache profile exs =
     (let (spw, cache1) = recommend_sessions_per_week cfile cache profile;
          weeks = recommend_total_weeks profile;
          (allowed, cache2) = select_allowed_exercises ext cfile cache1 profile exs;
          (sessions_acc, used_global) =
             weeks_sessions ext profile allowed spw [1..weeks] ([], {})
      in (\<lparr>plan_goal = goal profile, sessions_per_week = spw, total_weeks = weeks,
            sessions = sessions_acc\<rparr>, cache2))"

section \<open>The registry behind the cache\<close>

text \<open>
  \<open>the_registry cfile cache\<close> is the dict that \<open>_load_conditions\<close> returns in state \<open>cache\<close>;
  \<open>risk_tags_of\<close> and \<open>limits_of\<close> are the risk tags and the session limits of a profile
  as functions of that dict. The lemmas below show that the functions of conditions.py
  compute them and leave the dict in the cache.
\<close>

definition the_registry :: "RawCondition list option \<Rightarrow> registry option \<Rightarrow> registry" where
  "the_registry cfile cache = fst (load_conditions cfile cache)"

definition risk_tags_of :: "registry \<Rightarrow> UserProfile \<Rightarrow> string set" where
  "risk_tags_of conds profile =
     {item \<in> set (health_issues profile). item \<notin> set (map fst conds)} \<union>
     (\<Union>cid \<in> {item \<in> set (health_issues profile). item \<in> set (map fst conds)}.
        case map_of conds cid of
          None \<Rightarrow> {}
        | Some cond \<Rightarrow> group_tags (cond_group cond) \<union> diagnosis_tags cid)"

definition limits_of :: "registry \<Rightarrow> UserProfile \<Rightarrow> int set" where
  "limits_of conds profile =
     (\<Union>cid \<in> {item \<in> set (health_issues profile). item \<in> set (map fst conds)}.
        case map_of conds cid of
          None \<Rightarrow> {}
        | Some cond \<Rightarrow> (case sessions_per_week_max cond of None \<Rightarrow> {} | Some l \<Rightarrow> {l}))"

section \<open>The ranking and the candidates of a pick\<close>

text \<open>
  Names for three intermediate values of the source: the relevance score of exercise
  \<open>i\<close> of a corpus (entry \<open>i\<close> of \<open>scores\<close>), the index order \<open>np.argsort(-scores)\<close>, and the
  list \<open>filtered\<close> that \<open>_pick_exercises\<close> hands to the ranker (the exercises of the type
  and muscle group, narrowed to the unused ones when there are any).
\<close>

definition relevance :: "externals \<Rightarrow> string \<Rightarrow> Exercise list \<Rightarrow> nat \<Rightarrow> real" where
  "relevance ext g exs i =
     tfidf_score ext (build_corpus exs)
       (case GOAL_QUERIES g of Some q \<Rightarrow> q | None \<Rightarrow> DEFAULT_QUERY) i"

definition ranking_order :: "externals \<Rightarrow> string \<Rightarrow> Exercise list \<Rightarrow> nat list" where
  "ranking_order ext g exs =
     argsort ext (map uminus (map (relevance ext g exs) [0..<length exs]))"

definition pick_candidates ::
  "Exercise list \<Rightarrow> string \<Rightarrow> string option \<Rightarrow> string set \<Rightarrow> Exercise list" where
  "pick_candidates all_ex etype kw used =
     (let filtered = filter (\<lambda>ex. exercise_type ex = etype \<and>
              (case kw of
                 None \<Rightarrow> True
               | Some k \<Rightarrow> list_ex (\<lambda>mg. str_contains k mg) (muscle_groups ex))) all_ex;
          unused = filter (\<lambda>ex. ex_id ex \<notin> used) filtered
      in if used \<noteq> {} \<and> unused \<noteq> [] then unused else filtered)"

section \<open>Concrete inputs\<close>

text \<open>
  Library functions for the concrete runs: lower-casing of the ASCII letters, scores
  that are all zero, no token outside ASCII, and \<open>stable_argsort\<close>, an index sort that
  keeps equal keys in input order (what numpy's kind \<open>stable\<close> does).
  \<open>tie_reversing_argsort\<close> is another index sort within numpy's contract: it puts equal
  keys in the reverse of their input order.
\<close>

definition ascii_lower :: "string \<Rightarrow> string" where
  "ascii_lower s =
     map (\<lambda>c. if CHR ''A'' \<le> c \<and> c \<le> CHR ''Z'' then char_of (of_char c + (32 :: nat)) else c) s"

definition stable_argsort :: "real list \<Rightarrow> nat list" where
  "stable_argsort keys = sort_key (\<lambda>i. keys ! i) [0..<length keys]"

definition example_externals :: externals where
  "example_externals =
     \<lparr>str_lower = ascii_lower, tfidf_score = (\<lambda>docs query i. 0), argsort = stable_argsort,
      other_token = (\<lambda>doc. False)\<rparr>"

definition tie_reversing_argsort :: "real list \<Rightarrow> nat list" where
  "tie_reversing_argsort keys = sort_key (\<lambda>i. keys ! i) (rev [0..<length keys])"

definition tie_reversing_externals :: externals where
  "tie_reversing_externals = example_externals\<lparr>argsort := tie_reversing_argsort\<rparr>"

definition example_conditions_file :: "RawCondition list option" where
  "example_conditions_file =
     Some [\<lparr>raw_id = Some ''joint_knee_arthrosis'', raw_name = None, raw_group = Some ''joint'',
            raw_sessions_per_week_max = Some 3, raw_cardio_level = None, raw_notes = None\<rparr>]"

definition example_profile :: UserProfile where
  "example_profile =
     \<lparr>gender = ''male'', age = 30, weight_kg = 80, height_cm = None,
      activity_level = ''medium'', goal = ''maintenance'', experience_level = ''intermediate'',
      preferred_location = ''gym'', available_equipment = [], health_issues = [],
      max_sessions_per_week = 3\<rparr>"

definition example_exercise :: "string \<Rightarrow> string \<Rightarrow> Exercise" where
  "example_exercise i etype =
     \<lparr>ex_id = i, ex_name = i, muscle_groups = [], equipment = [], difficulty = ''beginner'',
      exercise_type = etype, locations = [''home'', ''gym''], contraindications = [],
      description = []\<rparr>"

definition example_catalog :: "Exercise list" where
  "example_catalog =
     [example_exercise ''squat'' ''strength'', example_exercise ''run'' ''cardio'',
      (example_exercise ''jump'' ''cardio'')\<lparr>contraindications := [tag_joints]\<rparr>]"

definition tokenless_pair :: "Exercise list" where
  "tokenless_pair = [example_exercise ''a'' ''x'', example_exercise ''b'' ''y'']"

definition barbell_exercise :: Exercise where
  "barbell_exercise = (example_exercise ''press'' ''strength'')\<lparr>equipment := [''Barbell'']\<rparr>"

definition six_strength_exercises :: "Exercise list" where
  "six_strength_exercises =
     map (\<lambda>i. example_exercise i ''strength'') [''a'', ''b'', ''c'', ''d'', ''e'', ''f'']"

definition home_profile :: UserProfile where
  "home_profile =
     example_profile\<lparr>preferred_location := ''home'', available_equipment := [''barbell'']\<rparr>"

definition weight_loss_profile :: UserProfile where
  "weight_loss_profile = example_profile\<lparr>goal := ''weight_loss''\<rparr>"

definition knee_profile :: UserProfile where
  "knee_profile = example_profile\<lparr>health_issues := [''joint_knee_arthrosis'']\<rparr>"

definition uncapped_profile :: UserProfile where
  "uncapped_profile = example_profile\<lparr>max_sessions_per_week := 0\<rparr>"

definition example_plan :: TrainingPlan where
  "example_plan =
     fst (generated_plan example_externals example_conditions_file None knee_profile
            example_catalog)"

definition weight_loss_plan :: TrainingPlan where
  "weight_loss_plan =
     fst (generated_plan example_externals None None weight_loss_profile
            six_strength_exercises)"

section \<open>The baseline of the specification\<close>

text \<open>
  The rule-based baseline in the words of the specification, with the set of tags it
  consults as a parameter: 3, plus 1 for high activity or minus 1 for low, plus 1 for
  the goals muscle gain and endurance, minus 1 when the tags hold the heart or the
  joints tag, plus one half for advanced or minus one half for beginner, rounded and
  clamped to 1..5.
\<close>

definition spec_baseline_score :: "string set \<Rightarrow> UserProfile \<Rightarrow> real" where
  "spec_baseline_score tags profile =
     3 + (if activity_level profile = ''high'' then 1
          else if activity_level profile = ''low'' then - 1 else 0)
       + (if goal profile = ''muscle_gain'' \<or> goal profile = ''endurance'' then 1 else 0)
       - (if tag_heart \<in> tags \<or> tag_joints \<in> tags then 1 else 0)
       + (if experience_level profile = ''advanced'' then 1 / 2
          else if experience_level profile = ''beginner'' then - (1 / 2) else 0)"

definition spec_baseline :: "string set \<Rightarrow> UserProfile \<Rightarrow> int" where
  "spec_baseline tags profile = max 1 (min 5 (py_round (spec_baseline_score tags profile)))"

section \<open>The cache holds the registry\<close>

lemma load_conditions_eq:
  "load_conditions cfile cache = (the_registry cfile cache, Some (the_registry cfile cache))"
  by (simp add: the_registry_def load_conditions_def Let_def split: option.splits)

lemma the_registry_cached [simp]: "the_registry cfile (Some conds) = conds"
  by (simp add: the_registry_def load_conditions_def)

lemma known_condition_ids_eq:
  "known_condition_ids cfile cache =
     (set (map fst (the_registry cfile cache)), Some (the_registry cfile cache))"
  by (simp add: known_condition_ids_def load_conditions_eq)

lemma extract_condition_ids_eq:
  "extract_condition_ids cfile cache issues =
     ({item \<in> set issues. item \<in> set (map fst (the_registry cfile cache))},
      Some (the_registry cfile cache))"
  by (simp add: extract_condition_ids_def known_condition_ids_eq)

lemma get_risk_tags_eq:
  "get_risk_tags_for_profile cfile cache profile =
     (risk_tags_of (the_registry cfile cache) profile, Some (the_registry cfile cache))"
  by (simp add: get_risk_tags_for_profile_def known_condition_ids_eq load_conditions_eq
      extract_condition_ids_eq risk_tags_of_def)

lemma get_sessions_limit_eq:
  "get_sessions_limit_for_profile cfile cache profile =
     (if limits_of (the_registry cfile cache) profile = {} then None
      else Some (Min (limits_of (the_registry cfile cache) profile)),
      Some (the_registry cfile cache))"
  by (auto simp add: get_sessions_limit_for_profile_def extract_condition_ids_eq
      load_conditions_eq limits_of_def Let_def)

lemma recommend_sessions_cache:
  "snd (recommend_sessions_per_week cfile cache profile) = Some (the_registry cfile cache)"
  by (simp add: recommend_sessions_per_week_def get_sessions_limit_eq Let_def)

lemma recommend_sessions_cached:
  "fst (recommend_sessions_per_week cfile2 (Some (the_registry cfile cache)) profile) =
   fst (recommend_sessions_per_week cfile cache profile)"
  by (simp add: recommend_sessions_per_week_def get_sessions_limit_eq Let_def)

lemma select_allowed_cache:
  "snd (select_allowed_exercises ext cfile cache profile exs) = Some (the_registry cfile cache)"
  by (simp add: select_allowed_exercises_def get_risk_tags_eq Let_def)

lemma select_allowed_cached:
  "fst (select_allowed_exercises ext cfile2 (Some (the_registry cfile cache)) profile exs) =
   fst (select_allowed_exercises ext cfile cache profile exs)"
  by (simp add: select_allowed_exercises_def get_risk_tags_eq Let_def)

lemma generated_cache:
  "snd (generated_plan ext cfile cache profile exs) = Some (the_registry cfile cache)"
  by (simp add: generated_plan_def Let_def split_beta select_allowed_cache
      recommend_sessions_cache)

lemma generated_cached:
  "fst (generated_plan ext cfile2 (Some (the_registry cfile cache)) profile exs) =
   fst (generated_plan ext cfile cache profile exs)"
  by (simp add: generated_plan_def Let_def split_beta select_allowed_cache
      recommend_sessions_cache recommend_sessions_cached select_allowed_cached)

section \<open>Cadence\<close>

lemma py_round_nearest: "\<bar>of_int (py_round x) - x\<bar> \<le> 1 / 2"
  unfolding py_round_def Let_def by (auto simp: abs_if) linarith+

lemma baseline_arith:
  fixes f :: "real \<Rightarrow> 'a"
  assumes "\<not> (lo \<and> hi)" and "\<not> (bg \<and> ad)"
  shows "(let score = 3;
              score = (if lo then score - 1 else if hi then score + 1 else score);
              score = (if g then score + 1 else if g' then score - 0 else score);
              score = (if h then score - 1 else score);
              score = (if bg then score - 1 / 2 else if ad then score + 1 / 2 else score)
          in f score)
       = f (3 + (if hi then 1 else if lo then - 1 else 0) + (if g then 1 else 0)
              - (if h then 1 else 0) + (if ad then 1 / 2 else if bg then - (1 / 2) else 0))"
  using assms unfolding Let_def
  by (cases lo; cases hi; cases g; cases h; cases bg; cases ad; simp)

lemma rule_based_eq_spec_baseline:
  "rule_based_sessions_per_week profile = spec_baseline (set (health_issues profile)) profile"
proof -
  have act: "\<not> (activity_level profile = ''low'' \<and> activity_level profile = ''high'')"
    by auto
  have exp: "\<not> (experience_level profile = ''beginner''
      \<and> experience_level profile = ''advanced'')"
    by auto
  have gl: "(goal profile \<in> {''muscle_gain'', ''endurance''})
      = (goal profile = ''muscle_gain'' \<or> goal profile = ''endurance'')"
    by simp
  show ?thesis
    unfolding rule_based_sessions_per_week_def spec_baseline_def spec_baseline_score_def gl
    by (rule baseline_arith [OF act exp])
qed

text \<open>
  Claim C8, as stated, fails: the source tests the profile's own list of health issues
  for the two legacy words, not the risk-tag set. A profile whose only health issue is
  the condition id of knee arthrosis has the joints tag among its risk tags; the claim's
  formula gives 2, the source returns 3.
\<close>

theorem rule_based_sessions_counterexample:
  "tag_joints \<in> fst (get_risk_tags_for_profile example_conditions_file None knee_profile)
   \<and> rule_based_sessions_per_week knee_profile = 3
   \<and> spec_baseline (fst (get_risk_tags_for_profile example_conditions_file None knee_profile))
        knee_profile = 2"
  by code_simp

text \<open>
  Claim C8, amended: the baseline is the formula of the specification read on the
  profile's list of health issues (minus 1 when that list itself holds the heart or the
  joints word); the rounding goes to a nearest integer (Python's, which takes a tie to
  the even neighbour), and the result is within 1..5.
\<close>

theorem rule_based_sessions_formula:
  "rule_based_sessions_per_week profile = spec_baseline (set (health_issues profile)) profile
   \<and> \<bar>of_int (py_round (spec_baseline_score (set (health_issues profile)) profile))
        - spec_baseline_score (set (health_issues profile)) profile\<bar> \<le> 1 / 2
   \<and> 1 \<le> rule_based_sessions_per_week profile \<and> rule_based_sessions_per_week profile \<le> 5"
proof -
  have eq: "rule_based_sessions_per_week profile
      = spec_baseline (set (health_issues profile)) profile"
    by (rule rule_based_eq_spec_baseline)
  have "1 \<le> spec_baseline (set (health_issues profile)) profile
      \<and> spec_baseline (set (health_issues profile)) profile \<le> 5"
    unfolding spec_baseline_def by simp
  then show ?thesis
    unfolding eq using py_round_nearest by simp
qed

lemma sessions_limit_is_minimum:
  assumes "fst (get_sessions_limit_for_profile cfile cache profile) = Some cap"
    and "cid \<in> set (health_issues profile)"
    and "map_of (the_registry cfile cache) cid = Some cond"
    and "sessions_per_week_max cond = Some l"
  shows "cap \<le> l"
proof -
  have fin: "finite (limits_of (the_registry cfile cache) profile)"
    by (auto simp: limits_of_def split: option.splits)
  have "cid \<in> set (map fst (the_registry cfile cache))"
    using assms(3) by (metis map_of_eq_None_iff option.distinct(1) set_map)
  then have "l \<in> limits_of (the_registry cfile cache) profile"
    using assms(2-4) by (force simp: limits_of_def)
  moreover have "cap = Min (limits_of (the_registry cfile cache) profile)"
    using assms(1) by (simp add: get_sessions_limit_eq split: if_splits)
  ultimately show ?thesis using fin by simp
qed

text \<open>
  Claim C2, as stated, fails: a profile whose \<open>max_sessions_per_week\<close> is 0 counts as
  having no cap, and the result, 3, exceeds it.
\<close>

theorem recommend_sessions_counterexample:
  "fst (recommend_sessions_per_week None None uncapped_profile) = 3
   \<and> max_sessions_per_week uncapped_profile = 0"
  by code_simp

text \<open>
  Claim C2, amended: the sessions per week are within 1..7; they do not exceed the
  profile's \<open>max_sessions_per_week\<close> when that is at least 1, and they do not exceed the
  condition-derived cap when there is one and it is at least 1. (The final clamp raises
  a smaller cap to 1.)
\<close>

theorem recommend_sessions_bounds:
  "1 \<le> fst (recommend_sessions_per_week cfile cache profile)
   \<and> fst (recommend_sessions_per_week cfile cache profile) \<le> 7
   \<and> (1 \<le> max_sessions_per_week profile \<longrightarrow>
        fst (recommend_sessions_per_week cfile cache profile) \<le> max_sessions_per_week profile)
   \<and> (\<forall>cap. fst (get_sessions_limit_for_profile cfile cache profile) = Some cap \<and> 1 \<le> cap \<longrightarrow>
        fst (recommend_sessions_per_week cfile cache profile) \<le> cap)"
  by (auto simp add: recommend_sessions_per_week_def Let_def split_beta split: option.splits)

theorem recommend_sessions_bounds_witness:
  "(1 :: int) \<le> max_sessions_per_week knee_profile
   \<and> fst (get_sessions_limit_for_profile example_conditions_file None knee_profile) = Some 3
   \<and> fst (recommend_sessions_per_week example_conditions_file None knee_profile) \<le> 3"
proof -
  have a: "(1 :: int) \<le> max_sessions_per_week knee_profile"
    by code_simp
  have b: "fst (get_sessions_limit_for_profile example_conditions_file None knee_profile) = Some 3"
    by code_simp
  show ?thesis
    using a b recommend_sessions_bounds [of example_conditions_file None knee_profile] by simp
qed

section \<open>The eligibility filter\<close>

lemma select_allowed_subset:
  "set (fst (select_allowed_exercises ext cfile cache profile exs)) \<subseteq> set exs"
  by (auto simp: select_allowed_exercises_def Let_def split_beta)

lemma exercise_allowed_contra:
  "risk_tags \<inter> set (contraindications ex) \<noteq> {}
     \<Longrightarrow> \<not> exercise_allowed ext profile exp_score risk_tags user_eq ex"
  by (simp add: exercise_allowed_def Let_def)

lemma exercise_allowed_equipment_mono:
  assumes "exercise_allowed ext profile exp_score risk_tags user_eq ex"
    and "user_eq \<subseteq> user_eq'"
    and "preferred_location profile = ''home'' \<or> user_eq \<noteq> {}"
    and "preferred_location profile' = preferred_location profile"
  shows "exercise_allowed ext profile' exp_score risk_tags user_eq' ex"
proof -
  have "str_lower ext ` set (equipment ex) \<inter> user_eq' \<noteq> {}"
    if "str_lower ext ` set (equipment ex) \<inter> user_eq \<noteq> {}"
    using that assms(2) by blast
  moreover have "user_eq' \<noteq> {}" if "user_eq \<noteq> {}"
    using that assms(2) by blast
  ultimately show ?thesis
    using assms(1,3,4) unfolding exercise_allowed_def Let_def
    by (auto split: if_splits)
qed

text \<open>
  Claim C7, as stated, fails: for the gym (and for no preference) an empty equipment
  list means "unrestricted", so the first item a profile declares can remove an exercise
  that needs other equipment.
\<close>

theorem equipment_monotonic_counterexample:
  "fst (select_allowed_exercises example_externals None None example_profile
          [barbell_exercise]) = [barbell_exercise]
   \<and> fst (select_allowed_exercises example_externals None None
          (example_profile\<lparr>available_equipment := available_equipment example_profile @ [''dumbbell'']\<rparr>)
          [barbell_exercise]) = []"
  by code_simp

text \<open>
  Claim C7, amended: when the profile trains at home, or has already declared some
  equipment, adding an item to its equipment list removes no exercise from the eligible
  pool.
\<close>

theorem equipment_monotonic:
  assumes "preferred_location profile = ''home'' \<or> available_equipment profile \<noteq> []"
    and "ex \<in> set (fst (select_allowed_exercises ext cfile cache profile exs))"
  shows "ex \<in> set (fst (select_allowed_exercises ext cfile cache
            (profile\<lparr>available_equipment := available_equipment profile @ [item]\<rparr>) exs))"
proof -
  let ?p = "profile\<lparr>available_equipment := available_equipment profile @ [item]\<rparr>"
  have tags: "risk_tags_of r ?p = risk_tags_of r profile" for r
    by (simp add: risk_tags_of_def)
  have "exercise_allowed ext ?p (difficulty_score (experience_level profile))
      (risk_tags_of (the_registry cfile cache) profile)
      (str_lower ext ` set (available_equipment profile @ [item])) ex"
    if "exercise_allowed ext profile (difficulty_score (experience_level profile))
      (risk_tags_of (the_registry cfile cache) profile)
      (str_lower ext ` set (available_equipment profile)) ex"
    using that assms(1) by (intro exercise_allowed_equipment_mono [OF that]) auto
  then show ?thesis
    using assms(2)
    by (simp add: select_allowed_exercises_def get_risk_tags_eq Let_def tags)
qed

theorem equipment_monotonic_witness:
  "preferred_location home_profile = ''home''
   \<and> fst (select_allowed_exercises example_externals None None home_profile [barbell_exercise])
       = [barbell_exercise]
   \<and> barbell_exercise \<in> set (fst (select_allowed_exercises example_externals None None
          (home_profile\<lparr>available_equipment := available_equipment home_profile @ [''dumbbell'']\<rparr>)
          [barbell_exercise]))"
proof -
  have a: "preferred_location home_profile = ''home''"
    by code_simp
  have b: "fst (select_allowed_exercises example_externals None None home_profile
      [barbell_exercise]) = [barbell_exercise]"
    by code_simp
  show ?thesis
    using a b equipment_monotonic [of home_profile barbell_exercise example_externals None None
        "[barbell_exercise]" "''dumbbell''"]
    by simp
qed

section \<open>The ranker\<close>

lemma argsort_ok_stable_argsort: "argsort_ok stable_argsort"
  by (simp add: argsort_ok_def stable_argsort_def)

lemma argsort_ok_example [simp]: "argsort_ok (argsort example_externals)"
  by (simp add: example_externals_def argsort_ok_stable_argsort)

lemma ranked_unfold:
  "ranked_exercises ext g exs max_items =
     (if length exs \<le> 1 then exs
      else case max_items of
             None \<Rightarrow> map (\<lambda>i. exs ! i) (ranking_order ext g exs)
           | Some m \<Rightarrow> map (\<lambda>i. exs ! i) (take (nat (max 1 m)) (ranking_order ext g exs)))"
proof -
  have "length (build_corpus exs) = length exs"
    by (simp add: build_corpus_def)
  then have eq: "map (tfidf_score ext (build_corpus exs)
        (case GOAL_QUERIES g of Some q \<Rightarrow> q | None \<Rightarrow> DEFAULT_QUERY))
        [0..<length (build_corpus exs)] = map (relevance ext g exs) [0..<length exs]"
    by (simp add: relevance_def [abs_def])
  show ?thesis
    unfolding ranked_exercises_def ranking_order_def Let_def eq by (rule refl)
qed

lemma ranking_order_perm:
  assumes "argsort_ok (argsort ext)"
  shows "mset (ranking_order ext g exs) = mset [0..<length exs]"
  using assms by (simp add: ranking_order_def argsort_ok_def)

lemma ranking_order_sorted:
  assumes "argsort_ok (argsort ext)"
  shows "sorted (map (\<lambda>i. - relevance ext g exs i) (ranking_order ext g exs))"
proof -
  let ?keys = "map uminus (map (relevance ext g exs) [0..<length exs])"
  have s: "sorted (map (\<lambda>i. ?keys ! i) (ranking_order ext g exs))"
    using assms by (simp add: ranking_order_def argsort_ok_def)
  have "set (ranking_order ext g exs) = {0..<length exs}"
    using mset_eq_setD [OF ranking_order_perm [OF assms, of g exs]] by simp
  then have e: "map (\<lambda>i. ?keys ! i) (ranking_order ext g exs)
      = map (\<lambda>i. - relevance ext g exs i) (ranking_order ext g exs)"
    by (intro map_cong) auto
  show ?thesis
    using s unfolding e .
qed

lemma mset_map_nth_perm:
  assumes "mset order = mset [0..<length xs]"
  shows "mset (map (\<lambda>i. xs ! i) order) = mset xs"
proof -
  have "mset (map (\<lambda>i. xs ! i) order) = image_mset (\<lambda>i. xs ! i) (mset order)"
    by simp
  also have "\<dots> = mset (map (\<lambda>i. xs ! i) [0..<length xs])"
    unfolding assms by simp
  also have "\<dots> = mset xs"
    by (simp add: map_nth)
  finally show ?thesis .
qed

lemma rank_returns:
  "rank_exercises_for_goal ext g exs max_items =
     (if 2 \<le> length exs \<and> \<not> list_ex (has_token ext) (build_corpus exs) then Inl ValueError
      else Inr (ranked_exercises ext g exs max_items))"
  by (auto simp: rank_exercises_for_goal_def ranked_exercises_def Let_def split: option.splits)

lemma ranking_order_stable:
  assumes "argsort ext = stable_argsort"
  shows "filter (\<lambda>i. relevance ext g exs i = r) (ranking_order ext g exs)
           = filter (\<lambda>i. relevance ext g exs i = r) [0..<length exs]"
proof -
  let ?keys = "map uminus (map (relevance ext g exs) [0..<length exs])"
  have ro: "ranking_order ext g exs = sort_key (\<lambda>i. ?keys ! i) [0..<length exs]"
    by (simp add: ranking_order_def assms stable_argsort_def)
  have key: "(?keys ! i = - r) = (relevance ext g exs i = r)" if "i < length exs" for i
    using that by simp
  have "filter (\<lambda>i. relevance ext g exs i = r) (ranking_order ext g exs)
      = filter (\<lambda>i. ?keys ! i = - r) (ranking_order ext g exs)"
    by (rule filter_cong) (auto simp: ro key)
  also have "\<dots> = filter (\<lambda>i. ?keys ! i = - r) [0..<length exs]"
    unfolding ro by (rule sort_key_stable)
  also have "\<dots> = filter (\<lambda>i. relevance ext g exs i = r) [0..<length exs]"
    by (rule filter_cong) (auto simp: key)
  finally show ?thesis .
qed

lemma argsort_ok_tie_reversing: "argsort_ok tie_reversing_argsort"
  by (simp add: argsort_ok_def tie_reversing_argsort_def)

text \<open>
  Claim C6, as stated, fails in three ways. The source raises \<open>max_items\<close> to at least 1,
  so with \<open>max_items = 0\<close> and two exercises it returns one exercise, more than
  \<open>max_items\<close>. For two exercises whose documents hold no token (here "a x" and "b y")
  the vectorizer raises \<open>ValueError\<close> and nothing is returned. And the order of equal
  scores is the index sort's: under \<open>tie_reversing_argsort\<close>, which meets numpy's contract,
  two exercises of equal score come back in the reverse of their input order.
\<close>

theorem rank_exercises_for_goal_counterexample:
  "rank_exercises_for_goal example_externals ''maintenance''
       [example_exercise ''squat'' ''strength'', example_exercise ''run'' ''cardio''] (Some 0)
     = Inr [example_exercise ''squat'' ''strength'']
   \<and> rank_exercises_for_goal example_externals ''maintenance'' tokenless_pair None
     = Inl ValueError
   \<and> argsort_ok (argsort tie_reversing_externals)
   \<and> relevance tie_reversing_externals ''maintenance''
       [example_exercise ''squat'' ''strength'', example_exercise ''run'' ''cardio''] 0
     = relevance tie_reversing_externals ''maintenance''
       [example_exercise ''squat'' ''strength'', example_exercise ''run'' ''cardio''] 1
   \<and> rank_exercises_for_goal tie_reversing_externals ''maintenance''
       [example_exercise ''squat'' ''strength'', example_exercise ''run'' ''cardio''] None
     = Inr [example_exercise ''run'' ''cardio'', example_exercise ''squat'' ''strength'']"
proof -
  have a: "rank_exercises_for_goal example_externals ''maintenance''
       [example_exercise ''squat'' ''strength'', example_exercise ''run'' ''cardio''] (Some 0)
     = Inr [example_exercise ''squat'' ''strength'']"
    by code_simp
  have b: "rank_exercises_for_goal example_externals ''maintenance'' tokenless_pair None
     = Inl ValueError"
    by code_simp
  have c: "argsort_ok (argsort tie_reversing_externals)"
    by (simp add: tie_reversing_externals_def argsort_ok_tie_reversing)
  have d: "relevance tie_reversing_externals ''maintenance''
       [example_exercise ''squat'' ''strength'', example_exercise ''run'' ''cardio''] 0
     = relevance tie_reversing_externals ''maintenance''
       [example_exercise ''squat'' ''strength'', example_exercise ''run'' ''cardio''] 1"
    by (simp add: relevance_def tie_reversing_externals_def example_externals_def)
  have e: "rank_exercises_for_goal tie_reversing_externals ''maintenance''
       [example_exercise ''squat'' ''strength'', example_exercise ''run'' ''cardio''] None
     = Inr [example_exercise ''run'' ''cardio'', example_exercise ''squat'' ''strength'']"
    by code_simp
  show ?thesis
    using a b c d e by simp
qed

text \<open>
  Claim C6, amended: with 0 or 1 exercises the ranker returns its input. With two or
  more it raises \<open>ValueError\<close> when no document of the corpus holds a token; otherwise, with
  no \<open>max_items\<close>, it returns the exercises in the order of \<open>ranking_order\<close>, a permutation
  of the input along which the relevance does not increase, equal scores standing in
  the order the index sort delivers (their input order when that sort is stable); and
  with \<open>max_items\<close> given it returns the first \<open>max 1 max_items\<close> of that ranking, so at
  most \<open>max 1 max_items\<close> exercises.
\<close>

theorem rank_exercises_for_goal_spec:
  assumes "argsort_ok (argsort ext)"
  shows "(length exs \<le> 1 \<longrightarrow> rank_exercises_for_goal ext g exs max_items = Inr exs)
       \<and> (2 \<le> length exs \<and> \<not> list_ex (has_token ext) (build_corpus exs) \<longrightarrow>
            rank_exercises_for_goal ext g exs max_items = Inl ValueError)
       \<and> (2 \<le> length exs \<and> list_ex (has_token ext) (build_corpus exs) \<longrightarrow>
            rank_exercises_for_goal ext g exs None
              = Inr (map (\<lambda>i. exs ! i) (ranking_order ext g exs))
          \<and> mset (ranking_order ext g exs) = mset [0..<length exs]
          \<and> mset (map (\<lambda>i. exs ! i) (ranking_order ext g exs)) = mset exs
          \<and> sorted (map (\<lambda>i. - relevance ext g exs i) (ranking_order ext g exs))
          \<and> (argsort ext = stable_argsort \<longrightarrow>
               (\<forall>r. filter (\<lambda>i. relevance ext g exs i = r) (ranking_order ext g exs)
                      = filter (\<lambda>i. relevance ext g exs i = r) [0..<length exs]))
          \<and> (\<forall>m. rank_exercises_for_goal ext g exs (Some m)
                 = Inr (take (nat (max 1 m)) (map (\<lambda>i. exs ! i) (ranking_order ext g exs)))))
       \<and> (\<forall>m xs. rank_exercises_for_goal ext g exs (Some m) = Inr xs \<longrightarrow>
            length xs \<le> nat (max 1 m))"
proof -
  have perm: "mset (ranking_order ext g exs) = mset [0..<length exs]"
    by (rule ranking_order_perm [OF assms])
  have a: "rank_exercises_for_goal ext g exs max_items = Inr exs" if "length exs \<le> 1"
    using that by (simp add: rank_returns ranked_unfold)
  have b: "rank_exercises_for_goal ext g exs max_items = Inl ValueError"
    if "2 \<le> length exs" "\<not> list_ex (has_token ext) (build_corpus exs)"
    using that by (simp add: rank_returns)
  have c: "rank_exercises_for_goal ext g exs None
      = Inr (map (\<lambda>i. exs ! i) (ranking_order ext g exs))"
    if "2 \<le> length exs" "list_ex (has_token ext) (build_corpus exs)"
    using that by (simp add: rank_returns ranked_unfold)
  have d: "mset (map (\<lambda>i. exs ! i) (ranking_order ext g exs)) = mset exs"
    by (rule mset_map_nth_perm [OF perm])
  have e: "rank_exercises_for_goal ext g exs (Some m)
      = Inr (take (nat (max 1 m)) (map (\<lambda>i. exs ! i) (ranking_order ext g exs)))"
    if "2 \<le> length exs" "list_ex (has_token ext) (build_corpus exs)" for m
    using that by (simp add: rank_returns ranked_unfold take_map)
  have f: "length xs \<le> nat (max 1 m)"
    if r: "rank_exercises_for_goal ext g exs (Some m) = Inr xs" for m xs
  proof (cases "length exs \<le> 1")
    case True
    then have "xs = exs"
      using r by (simp add: rank_returns ranked_unfold)
    then show ?thesis
      using True by simp
  next
    case False
    then have "xs = map (\<lambda>i. exs ! i) (take (nat (max 1 m)) (ranking_order ext g exs))"
      using r by (simp add: rank_returns ranked_unfold split: if_splits)
    then show ?thesis
      by simp
  qed
  have g: "filter (\<lambda>i. relevance ext g exs i = r) (ranking_order ext g exs)
      = filter (\<lambda>i. relevance ext g exs i = r) [0..<length exs]"
    if "argsort ext = stable_argsort" for r
    by (rule ranking_order_stable [OF that])
  show ?thesis
    using a b c d e f g perm ranking_order_sorted [OF assms, of g exs] by blast
qed

theorem rank_exercises_for_goal_spec_witness:
  "argsort_ok (argsort example_externals)
   \<and> 2 \<le> length [example_exercise ''squat'' ''strength'', example_exercise ''run'' ''cardio'']
   \<and> list_ex (has_token example_externals)
       (build_corpus [example_exercise ''squat'' ''strength'', example_exercise ''run'' ''cardio''])
   \<and> argsort example_externals = stable_argsort
   \<and> rank_exercises_for_goal example_externals ''maintenance''
        [example_exercise ''squat'' ''strength'', example_exercise ''run'' ''cardio''] None
      = Inr (map (\<lambda>i. [example_exercise ''squat'' ''strength'',
                         example_exercise ''run'' ''cardio''] ! i)
              (ranking_order example_externals ''maintenance''
                 [example_exercise ''squat'' ''strength'', example_exercise ''run'' ''cardio'']))
   \<and> filter (\<lambda>i. relevance example_externals ''maintenance''
          [example_exercise ''squat'' ''strength'', example_exercise ''run'' ''cardio''] i = 0)
        (ranking_order example_externals ''maintenance''
          [example_exercise ''squat'' ''strength'', example_exercise ''run'' ''cardio''])
      = filter (\<lambda>i. relevance example_externals ''maintenance''
          [example_exercise ''squat'' ''strength'', example_exercise ''run'' ''cardio''] i = 0)
        [0..<length [example_exercise ''squat'' ''strength'', example_exercise ''run'' ''cardio'']]
   \<and> rank_exercises_for_goal example_externals ''maintenance''
        [example_exercise ''squat'' ''strength'', example_exercise ''run'' ''cardio''] (Some 1)
      = Inr (take (nat (max 1 1))
           (map (\<lambda>i. [example_exercise ''squat'' ''strength'',
                         example_exercise ''run'' ''cardio''] ! i)
              (ranking_order example_externals ''maintenance''
                 [example_exercise ''squat'' ''strength'', example_exercise ''run'' ''cardio''])))"
proof -
  let ?exs = "[example_exercise ''squat'' ''strength'', example_exercise ''run'' ''cardio'']"
  have ok: "argsort_ok (argsort example_externals)"
    by simp
  have two: "2 \<le> length ?exs"
    by simp
  have tok: "list_ex (has_token example_externals) (build_corpus ?exs)"
    by code_simp
  have st: "argsort example_externals = stable_argsort"
    by (simp add: example_externals_def)
  show ?thesis
    using rank_exercises_for_goal_spec [OF ok, of ?exs "''maintenance''" None] ok two tok st
    by blast
qed

section \<open>Picks come from the pool\<close>

lemma ranked_subset:
  assumes "argsort_ok (argsort ext)"
  shows "set (ranked_exercises ext g exs m) \<subseteq> set exs"
proof -
  have idx: "set (ranking_order ext g exs) = {0..<length exs}"
    using mset_eq_setD [OF ranking_order_perm [OF assms, of g exs]] by simp
  have sub: "set (map (\<lambda>i. exs ! i) js) \<subseteq> set exs" if "set js \<subseteq> {0..<length exs}" for js
    using that by auto
  have whole: "set (map (\<lambda>i. exs ! i) (ranking_order ext g exs)) \<subseteq> set exs"
    by (rule sub) (simp add: idx)
  have part: "set (map (\<lambda>i. exs ! i) (take k (ranking_order ext g exs))) \<subseteq> set exs" for k
    using set_take_subset [of k "ranking_order ext g exs"] idx by (intro sub) blast
  show ?thesis
    using whole part by (simp add: ranked_unfold split: option.splits)
qed

lemma py_slice_to_subset: "set (py_slice_to xs m) \<subseteq> set xs"
  by (auto simp: py_slice_to_def dest: in_set_takeD)

lemma picked_unfold:
  "picked_exercises ext all_ex etype kw n g used =
     (if g \<noteq> [] then ranked_exercises ext g (pick_candidates all_ex etype kw used) (Some n)
      else py_slice_to (sort_key ex_id (pick_candidates all_ex etype kw used)) n)"
proof -
  define filtered where "filtered = filter (\<lambda>ex. exercise_type ex = etype \<and>
      (case kw of None \<Rightarrow> True
       | Some k \<Rightarrow> list_ex (\<lambda>mg. str_contains k mg) (muscle_groups ex))) all_ex"
  define unused where "unused = filter (\<lambda>ex. ex_id ex \<notin> used) filtered"
  have c: "pick_candidates all_ex etype kw used
      = (if used \<noteq> {} \<and> unused \<noteq> [] then unused else filtered)"
    unfolding pick_candidates_def filtered_def unused_def Let_def by simp
  have p: "picked_exercises ext all_ex etype kw n g used =
      (if filtered = [] then []
       else if g \<noteq> []
       then ranked_exercises ext g
              (if used \<noteq> {} \<and> unused \<noteq> [] then unused else filtered) (Some n)
       else py_slice_to (sort_key ex_id
              (if used \<noteq> {} \<and> unused \<noteq> [] then unused else filtered)) n)"
    unfolding picked_exercises_def filtered_def unused_def Let_def by simp
  show ?thesis
  proof (cases "filtered = []")
    case True
    then have "unused = []"
      by (simp add: unused_def)
    then show ?thesis
      unfolding p c using True
      by (simp add: ranked_exercises_def py_slice_to_def)
  next
    case False
    then show ?thesis
      unfolding p c by simp
  qed
qed

lemma pick_candidates_subset: "set (pick_candidates all_ex etype kw used) \<subseteq> set all_ex"
  by (auto simp: pick_candidates_def Let_def)

lemma picked_subset:
  assumes "argsort_ok (argsort ext)"
  shows "set (picked_exercises ext all_ex etype kw n g used) \<subseteq> set all_ex"
proof -
  let ?c = "pick_candidates all_ex etype kw used"
  have "set (ranked_exercises ext g ?c (Some n)) \<subseteq> set all_ex"
    using ranked_subset [OF assms, of g ?c "Some n"] pick_candidates_subset [of all_ex etype kw used]
    by blast
  moreover have "set (py_slice_to (sort_key ex_id ?c) n) \<subseteq> set all_ex"
    using py_slice_to_subset [of "sort_key ex_id ?c" n]
      pick_candidates_subset [of all_ex etype kw used]
    by auto
  ultimately show ?thesis
    by (simp add: picked_unfold)
qed

lemma template_picks_subset:
  assumes "argsort_ok (argsort ext)"
  shows "set (template_picks ext profile allowed d used) \<subseteq> set allowed"
  unfolding template_picks_def Let_def
  using picked_subset [OF assms, of allowed] by auto

lemma padded_subset:
  assumes "argsort_ok (argsort ext)"
  shows "set (padded_block ext profile allowed d used) \<subseteq> set allowed"
  unfolding padded_block_def Let_def
  using picked_subset [OF assms, of allowed] template_picks_subset [OF assms, of profile allowed d used]
  by auto

section \<open>Sessions\<close>

lemma planned_exercise_for_id [simp]:
  "exercise_id (planned_exercise_for s r c ex) = ex_id ex"
  by (simp add: planned_exercise_for_def)

lemma main_block_loop_spec:
  assumes "main_block_loop prog exs (uis, ug, planned) = (uis', ug', planned')"
    and "exercise_id ` set planned \<subseteq> uis" and "distinct (map exercise_id planned)"
  shows "distinct (map exercise_id planned')
         \<and> exercise_id ` set planned' = exercise_id ` set planned \<union> (ex_id ` set exs - uis)
         \<and> uis' = uis \<union> ex_id ` set exs
         \<and> ug' = ug \<union> (ex_id ` set exs - uis)"
  using assms
proof (induction exs arbitrary: uis ug planned)
  case Nil
  then show ?case by simp
next
  case (Cons ex rest)
  show ?case
  proof (cases "ex_id ex \<in> uis")
    case True
    then have "main_block_loop prog rest (uis, ug, planned) = (uis', ug', planned')"
      using Cons.prems(1) by simp
    from Cons.IH [OF this Cons.prems(2,3)] True show ?thesis
      by auto
  next
    case False
    obtain s r c where prog: "prog = (s, r, c)"
      by (cases prog)
    let ?pl = "planned @ [planned_exercise_for s r c ex]"
    have step: "main_block_loop prog rest
        (insert (ex_id ex) uis, insert (ex_id ex) ug, ?pl) = (uis', ug', planned')"
      using Cons.prems(1) False prog by simp
    have a: "exercise_id ` set ?pl \<subseteq> insert (ex_id ex) uis"
      using Cons.prems(2) by auto
    have b: "distinct (map exercise_id ?pl)"
      using Cons.prems(2,3) False by auto
    from Cons.IH [OF step a b] False show ?thesis
      by auto
  qed
qed

lemma built_session_fields [simp]:
  "week_index (fst (built_session ext profile allowed w d used)) = w"
  "day_index (fst (built_session ext profile allowed w d used)) = d"
  by (simp_all add: built_session_def Let_def split_beta)

lemma built_session_exercises:
  "distinct (map exercise_id (exercises (fst (built_session ext profile allowed w d used))))
   \<and> exercise_id ` set (exercises (fst (built_session ext profile allowed w d used)))
       = ex_id ` set (padded_block ext profile allowed d used)"
proof -
  obtain uis' ug' planned' where
    l: "main_block_loop (week_progression profile w)
          (padded_block ext profile allowed d used) ({}, used, []) = (uis', ug', planned')"
    by (cases "main_block_loop (week_progression profile w)
          (padded_block ext profile allowed d used) ({}, used, [])")
  have "exercises (fst (built_session ext profile allowed w d used)) = planned'"
    using l by (simp add: built_session_def Let_def)
  then show ?thesis
    using main_block_loop_spec [OF l] by simp
qed

lemma days_sessions_acc:
  "\<exists>ss. fst (days_sessions ext profile allowed w ds (acc, used)) = acc @ ss
     \<and> map (\<lambda>s. (week_index s, day_index s)) ss = map (Pair w) ds
     \<and> (\<forall>s \<in> set ss. \<exists>w' d' used'. s = fst (built_session ext profile allowed w' d' used'))"
proof (induction ds arbitrary: acc used)
  case Nil
  then show ?case by simp
next
  case (Cons d ds)
  obtain session used1 where bs: "built_session ext profile allowed w d used = (session, used1)"
    by (cases "built_session ext profile allowed w d used")
  from Cons.IH [of "acc @ [session]" used1]
  obtain ss where ss: "fst (days_sessions ext profile allowed w ds (acc @ [session], used1))
        = (acc @ [session]) @ ss"
      "map (\<lambda>s. (week_index s, day_index s)) ss = map (Pair w) ds"
      "\<forall>s \<in> set ss. \<exists>w' d' used'. s = fst (built_session ext profile allowed w' d' used')"
    by blast
  have s1: "session = fst (built_session ext profile allowed w d used)"
    using bs by simp
  have "fst (days_sessions ext profile allowed w (d # ds) (acc, used)) = acc @ (session # ss)"
    using bs ss(1) by simp
  moreover have "map (\<lambda>s. (week_index s, day_index s)) (session # ss) = map (Pair w) (d # ds)"
    using ss(2) s1 by simp
  moreover have "\<forall>s \<in> set (session # ss).
      \<exists>w' d' used'. s = fst (built_session ext profile allowed w' d' used')"
    using ss(3) s1 by auto
  ultimately show ?case by blast
qed

lemma weeks_sessions_acc:
  "\<exists>ss. fst (weeks_sessions ext profile allowed spw ws (acc, used)) = acc @ ss
     \<and> map (\<lambda>s. (week_index s, day_index s)) ss = List.product ws [1..spw]
     \<and> (\<forall>s \<in> set ss. \<exists>w' d' used'. s = fst (built_session ext profile allowed w' d' used'))"
proof (induction ws arbitrary: acc used)
  case Nil
  then show ?case by simp
next
  case (Cons w ws)
  obtain acc1 used1 where dl: "days_sessions ext profile allowed w [1..spw] (acc, used) = (acc1, used1)"
    by (cases "days_sessions ext profile allowed w [1..spw] (acc, used)")
  from days_sessions_acc [of ext profile allowed w "[1..spw]" acc used]
  obtain ss1 where ss1: "acc1 = acc @ ss1"
      "map (\<lambda>s. (week_index s, day_index s)) ss1 = map (Pair w) [1..spw]"
      "\<forall>s \<in> set ss1. \<exists>w' d' used'. s = fst (built_session ext profile allowed w' d' used')"
    using dl by auto
  from Cons.IH [of acc1 used1]
  obtain ss2 where ss2: "fst (weeks_sessions ext profile allowed spw ws (acc1, used1)) = acc1 @ ss2"
      "map (\<lambda>s. (week_index s, day_index s)) ss2 = List.product ws [1..spw]"
      "\<forall>s \<in> set ss2. \<exists>w' d' used'. s = fst (built_session ext profile allowed w' d' used')"
    by blast
  have "fst (weeks_sessions ext profile allowed spw (w # ws) (acc, used)) = acc @ (ss1 @ ss2)"
    using dl ss1(1) ss2(1) by simp
  moreover have "map (\<lambda>s. (week_index s, day_index s)) (ss1 @ ss2) = List.product (w # ws) [1..spw]"
    using ss1(2) ss2(2) by simp
  moreover have "\<forall>s \<in> set (ss1 @ ss2).
      \<exists>w' d' used'. s = fst (built_session ext profile allowed w' d' used')"
    using ss1(3) ss2(3) by auto
  ultimately show ?case by blast
qed

lemma generated_fields:
  "sessions_per_week (fst (generated_plan ext cfile cache profile exs))
     = fst (recommend_sessions_per_week cfile cache profile)"
  "total_weeks (fst (generated_plan ext cfile cache profile exs))
     = recommend_total_weeks profile"
  by (simp_all add: generated_plan_def Let_def split_beta)

lemma generated_sessions:
  "map (\<lambda>s. (week_index s, day_index s))
       (sessions (fst (generated_plan ext cfile cache profile exs)))
     = List.product [1..recommend_total_weeks profile]
         [1..fst (recommend_sessions_per_week cfile cache profile)]
   \<and> (\<forall>s \<in> set (sessions (fst (generated_plan ext cfile cache profile exs))).
        \<exists>w d used. s = fst (built_session ext profile
            (fst (select_allowed_exercises ext cfile cache profile exs)) w d used))"
proof -
  have sel: "fst (select_allowed_exercises ext cfile
        (snd (recommend_sessions_per_week cfile cache profile)) profile exs)
      = fst (select_allowed_exercises ext cfile cache profile exs)"
    unfolding recommend_sessions_cache by (rule select_allowed_cached)
  show ?thesis
    using weeks_sessions_acc [of ext profile "fst (select_allowed_exercises ext cfile cache profile exs)"
        "fst (recommend_sessions_per_week cfile cache profile)"
        "[1..recommend_total_weeks profile]" "[]" "{}"]
    by (auto simp add: generated_plan_def Let_def split_beta sel)
qed

lemma plan_ids_allowed:
  assumes "argsort_ok (argsort ext)"
    and "s \<in> set (sessions (fst (generated_plan ext cfile cache profile exs)))"
    and "pe \<in> set (exercises s)"
  shows "\<exists>ex \<in> set (fst (select_allowed_exercises ext cfile cache profile exs)).
           ex_id ex = exercise_id pe"
proof -
  let ?allowed = "fst (select_allowed_exercises ext cfile cache profile exs)"
  obtain w d used where s: "s = fst (built_session ext profile ?allowed w d used)"
    using generated_sessions [of ext cfile cache profile exs] assms(2) by blast
  have "exercise_id pe \<in> ex_id ` set (padded_block ext profile ?allowed d used)"
    using built_session_exercises [of ext profile ?allowed w d used] assms(3) s by blast
  then show ?thesis
    using padded_subset [OF assms(1), of profile ?allowed d used] by auto
qed

lemma filter_key_once:
  "distinct (map f xs) \<Longrightarrow> k \<in> f ` set xs \<Longrightarrow> length (filter (\<lambda>x. f x = k) xs) = 1"
proof (induction xs)
  case Nil
  then show ?case by simp
next
  case (Cons x xs)
  show ?case
  proof (cases "f x = k")
    case True
    then have "k \<notin> f ` set xs"
      using Cons.prems(1) by simp
    then have "filter (\<lambda>y. f y = k) xs = []"
      by (auto simp: filter_empty_conv)
    then show ?thesis using True by simp
  next
    case False
    then show ?thesis using Cons by auto
  qed
qed

section \<open>Plans\<close>

lemma generated_plan_grid:
  fixes ext cfile cache profile exs
  defines "plan \<equiv> fst (generated_plan ext cfile cache profile exs)"
  shows "map (\<lambda>s. (week_index s, day_index s)) (sessions plan)
           = List.product [1..total_weeks plan] [1..sessions_per_week plan]
         \<and> length (sessions plan) = nat (total_weeks plan * sessions_per_week plan)
         \<and> (\<forall>w d. 1 \<le> w \<and> w \<le> total_weeks plan \<and> 1 \<le> d \<and> d \<le> sessions_per_week plan \<longrightarrow>
              length (filter (\<lambda>s. week_index s = w \<and> day_index s = d) (sessions plan)) = 1)"
proof -
  let ?key = "\<lambda>s. (week_index s, day_index s)"
  let ?grid = "List.product [1..total_weeks plan] [1..sessions_per_week plan]"
  have grid: "map ?key (sessions plan) = ?grid"
    unfolding plan_def generated_fields
    using generated_sessions [of ext cfile cache profile exs] by simp
  have tw: "0 \<le> total_weeks plan"
    unfolding plan_def generated_fields
    by (simp add: recommend_total_weeks_def rule_based_total_weeks_def)
  have spw: "1 \<le> sessions_per_week plan"
    unfolding plan_def generated_fields
    by (simp add: recommend_sessions_per_week_def Let_def split_beta)
  have "length (sessions plan) = length ?grid"
    using grid by (metis length_map)
  also have "\<dots> = nat (total_weeks plan) * nat (sessions_per_week plan)"
    using tw spw by simp
  also have "\<dots> = nat (total_weeks plan * sessions_per_week plan)"
    using tw by (simp add: nat_mult_distrib)
  finally have len: "length (sessions plan) = nat (total_weeks plan * sessions_per_week plan)" .
  have dist: "distinct (map ?key (sessions plan))"
    unfolding grid by (simp add: distinct_product)
  have once: "length (filter (\<lambda>s. week_index s = w \<and> day_index s = d) (sessions plan)) = 1"
    if "1 \<le> w" "w \<le> total_weeks plan" "1 \<le> d" "d \<le> sessions_per_week plan" for w d
  proof -
    have "(w, d) \<in> set ?grid"
      using that by simp
    then have "(w, d) \<in> set (map ?key (sessions plan))"
      using grid by simp
    then have "length (filter (\<lambda>s. ?key s = (w, d)) (sessions plan)) = 1"
      using dist by (intro filter_key_once) auto
    then show ?thesis by simp
  qed
  show ?thesis
    using grid len once by blast
qed

lemma generated_plan_distinct:
  "\<forall>s \<in> set (sessions (fst (generated_plan ext cfile cache profile exs))).
     distinct (map exercise_id (exercises s))"
proof
  fix s
  assume "s \<in> set (sessions (fst (generated_plan ext cfile cache profile exs)))"
  then obtain w d used where "s = fst (built_session ext profile
      (fst (select_allowed_exercises ext cfile cache profile exs)) w d used)"
    using generated_sessions [of ext cfile cache profile exs] by blast
  then show "distinct (map exercise_id (exercises s))"
    using built_session_exercises by simp
qed

lemma generated_plan_resolvable:
  assumes "argsort_ok (argsort ext)"
  shows "\<forall>s \<in> set (sessions (fst (generated_plan ext cfile cache profile exs))).
           \<forall>pe \<in> set (exercises s).
             \<exists>ex \<in> set exs. ex_id ex = exercise_id pe
               \<and> ex \<in> set (fst (select_allowed_exercises ext cfile cache profile exs))"
  using plan_ids_allowed [OF assms] select_allowed_subset by blast

lemma generated_plan_contraindicated:
  assumes "argsort_ok (argsort ext)"
    and "ex \<in> set exs"
    and "fst (get_risk_tags_for_profile cfile cache profile) \<inter> set (contraindications ex) \<noteq> {}"
  shows "ex \<notin> set (fst (select_allowed_exercises ext cfile cache profile exs))
         \<and> (distinct (map ex_id exs) \<longrightarrow>
              (\<forall>s \<in> set (sessions (fst (generated_plan ext cfile cache profile exs))).
                 \<forall>pe \<in> set (exercises s). exercise_id pe \<noteq> ex_id ex))"
proof -
  let ?allowed = "fst (select_allowed_exercises ext cfile cache profile exs)"
  have out: "ex \<notin> set ?allowed"
    using assms(3) exercise_allowed_contra
    by (simp add: select_allowed_exercises_def Let_def split_beta)
  have "exercise_id pe \<noteq> ex_id ex"
    if dist: "distinct (map ex_id exs)"
      and s: "s \<in> set (sessions (fst (generated_plan ext cfile cache profile exs)))"
      and pe: "pe \<in> set (exercises s)" for s pe
  proof
    assume eq: "exercise_id pe = ex_id ex"
    obtain ex' where ex': "ex' \<in> set ?allowed" "ex_id ex' = exercise_id pe"
      using plan_ids_allowed [OF assms(1) s pe] by blast
    have "ex' \<in> set exs"
      using ex'(1) select_allowed_subset by blast
    then have "ex' = ex"
      using dist assms(2) ex'(2) eq by (metis distinct_map inj_onD)
    then show False
      using ex'(1) out by simp
  qed
  then show ?thesis
    using out by blast
qed

section \<open>Padding the main block\<close>

lemma picked_no_candidates:
  assumes "\<forall>ex \<in> set all_ex. exercise_type ex \<noteq> etype"
  shows "picked_exercises ext all_ex etype kw n g used = []"
proof -
  have "filter (\<lambda>ex. exercise_type ex = etype \<and> P ex) all_ex = []" for P
    using assms by (auto simp: filter_empty_conv)
  then show ?thesis
    unfolding picked_exercises_def Let_def by simp
qed

lemma picked_length:
  assumes "g \<noteq> []"
  shows "length (picked_exercises ext all_ex etype kw n g used) \<le> nat (max 1 n)"
proof (cases "length (pick_candidates all_ex etype kw used) \<le> 1")
  case True
  then show ?thesis
    using assms by (simp add: picked_unfold ranked_unfold)
next
  case False
  then show ?thesis
    using assms by (simp add: picked_unfold ranked_unfold)
qed

lemma picked_again_subset:
  assumes "g \<noteq> []" and "1 \<le> n"
    and "m = k - int (length (picked_exercises ext all_ex etype kw n g used))"
    and "k \<le> n + 1"
  shows "set (picked_exercises ext all_ex etype kw m g used)
           \<subseteq> set (picked_exercises ext all_ex etype kw n g used)"
proof (cases "length (pick_candidates all_ex etype kw used) \<le> 1")
  case True
  then show ?thesis
    using assms(1) by (simp add: picked_unfold ranked_unfold)
next
  case False
  let ?order = "ranking_order ext g (pick_candidates all_ex etype kw used)"
  let ?f = "\<lambda>i. pick_candidates all_ex etype kw used ! i"
  have p: "picked_exercises ext all_ex etype kw j g used = map ?f (take (nat (max 1 j)) ?order)" for j
    using False assms(1) by (simp add: picked_unfold ranked_unfold)
  show ?thesis
  proof (cases "?order = []")
    case True
    then show ?thesis by (simp add: p)
  next
    case ne: False
    have "length (picked_exercises ext all_ex etype kw n g used) \<ge> 1"
      using ne assms(2) by (cases ?order) (simp_all add: p)
    then have "nat (max 1 m) \<le> nat (max 1 n)"
      using assms(2-4) by simp
    then have "set (take (nat (max 1 m)) ?order) \<subseteq> set (take (nat (max 1 n)) ?order)"
      by (rule set_take_subset_set_take)
    then show ?thesis
      unfolding p by auto
  qed
qed

lemma session_length_card:
  "length (exercises (fst (built_session ext profile allowed w d used)))
     = card (ex_id ` set (padded_block ext profile allowed d used))"
proof -
  let ?ids = "map exercise_id (exercises (fst (built_session ext profile allowed w d used)))"
  have d: "distinct ?ids"
    and e: "set ?ids = ex_id ` set (padded_block ext profile allowed d used)"
    using built_session_exercises [of ext profile allowed w d used] by simp_all
  have "card (set ?ids) = length ?ids"
    using d by (rule distinct_card)
  then show ?thesis
    unfolding e by simp
qed

lemma weight_loss_block_short:
  assumes "goal profile = ''weight_loss''"
    and "\<forall>ex \<in> set allowed. exercise_type ex \<noteq> ''cardio''"
  shows "card (ex_id ` set (padded_block ext profile allowed d used)) \<le> 5"
proof -
  let ?P = "picked_exercises ext allowed ''strength'' None 5 ''weight_loss'' used"
  let ?E = "picked_exercises ext allowed ''strength'' None (6 - int (length ?P)) ''weight_loss'' used"
  have t: "template_picks ext profile allowed d used = ?P"
    using assms(1) picked_no_candidates [OF assms(2)]
    by (simp add: template_picks_def Let_def)
  have len: "length ?P \<le> 5"
    using picked_length [of "''weight_loss''" ext allowed "''strength''" None 5 used] by simp
  have sub: "set ?E \<subseteq> set ?P"
    by (rule picked_again_subset [where k = 6 and n = 5]) simp_all
  have "set (padded_block ext profile allowed d used) = set ?P \<union> set ?E"
    using assms(1) len
    by (simp add: padded_block_def t min_main_for_def Let_def)
  then have "ex_id ` set (padded_block ext profile allowed d used) = ex_id ` set ?P"
    using sub by auto
  moreover have "card (ex_id ` set ?P) \<le> card (set ?P)"
    by (rule card_image_le) simp
  moreover have "card (set ?P) \<le> length ?P"
    by (rule card_length)
  ultimately show ?thesis
    using len by simp
qed

lemma generated_plan_short_sessions:
  assumes "goal profile = ''weight_loss''"
    and "\<forall>ex \<in> set exs. exercise_type ex \<noteq> ''cardio''"
  shows "min_main_for profile = 6
         \<and> (\<forall>s \<in> set (sessions (fst (generated_plan ext cfile cache profile exs))).
              length (exercises s) \<le> 5)"
proof -
  let ?allowed = "fst (select_allowed_exercises ext cfile cache profile exs)"
  have nc: "\<forall>ex \<in> set ?allowed. exercise_type ex \<noteq> ''cardio''"
    using assms(2) select_allowed_subset by blast
  have "length (exercises s) \<le> 5"
    if mem: "s \<in> set (sessions (fst (generated_plan ext cfile cache profile exs)))"
    for s
  proof -
    obtain w d used where "s = fst (built_session ext profile ?allowed w d used)"
      using generated_sessions [of ext cfile cache profile exs] mem by blast
    then show ?thesis
      using weight_loss_block_short [OF assms(1) nc, of ext d used]
      by (simp add: session_length_card)
  qed
  moreover have "min_main_for profile = 6"
    using assms(1) by (simp add: min_main_for_def)
  ultimately show ?thesis
    by blast
qed

section \<open>Plan generation never raises\<close>

text \<open>
  Every document that \<open>_pick_exercises\<close> hands to the ranker ends in the exercise type it
  filtered by, and the generator only asks for the types strength, cardio, rehab and
  mobility: each document holds a token, so the vectorizer does not raise.
\<close>

lemma has_ascii_token_append: "has_ascii_token ys \<Longrightarrow> has_ascii_token (xs @ ys)"
proof (induction xs)
  case Nil
  then show ?case by simp
next
  case (Cons x xs)
  then have t: "has_ascii_token (xs @ ys)"
    by simp
  show ?case
  proof (cases "xs @ ys")
    case Nil
    then show ?thesis
      using t by simp
  next
    case (Cons b cs)
    then have "has_ascii_token (b # cs)"
      using t by simp
    then have "has_ascii_token (x # b # cs)"
      by simp
    then show ?thesis
      using Cons by simp
  qed
qed

lemma py_join_last: "\<exists>pre. py_join sep (ps @ [t]) = pre @ t"
proof (induction ps)
  case Nil
  have "py_join sep ([] @ [t]) = [] @ t"
    by simp
  then show ?case
    by (rule exI)
next
  case (Cons p ps)
  then obtain pre where pre: "py_join sep (ps @ [t]) = pre @ t"
    by (rule exE)
  show ?case
  proof (cases ps)
    case Nil
    then have "py_join sep ((p # ps) @ [t]) = (p @ sep) @ t"
      by simp
    then show ?thesis
      by (rule exI)
  next
    case (Cons q qs)
    then have "py_join sep ((p # ps) @ [t]) = (p @ sep @ pre) @ t"
      using pre by simp
    then show ?thesis
      by (rule exI)
  qed
qed

lemma corpus_has_token:
  assumes "doc \<in> set (build_corpus exs)"
    and "\<forall>ex \<in> set exs. has_ascii_token (exercise_type ex)"
  shows "has_ascii_token doc"
proof -
  define front where "front = (\<lambda>ex :: Exercise. [ex_name ex]
      @ (if description ex \<noteq> [] then [description ex] else [])
      @ muscle_groups ex @ equipment ex)"
  have corpus: "build_corpus exs
      = map (\<lambda>ex. py_join '' '' (filter (\<lambda>p. p \<noteq> []) (front ex @ [exercise_type ex]))) exs"
    unfolding build_corpus_def front_def Let_def by simp
  obtain ex where ex: "ex \<in> set exs"
    and doc: "doc = py_join '' '' (filter (\<lambda>p. p \<noteq> []) (front ex @ [exercise_type ex]))"
    using assms(1) unfolding corpus by auto
  have t: "has_ascii_token (exercise_type ex)"
    using assms(2) ex by (rule bspec)
  have "exercise_type ex \<noteq> []"
  proof
    assume "exercise_type ex = []"
    then show False
      using t by simp
  qed
  then have "doc = py_join '' '' (filter (\<lambda>p. p \<noteq> []) (front ex) @ [exercise_type ex])"
    unfolding doc by simp
  moreover obtain pre where
    "py_join '' '' (filter (\<lambda>p. p \<noteq> []) (front ex) @ [exercise_type ex])
       = pre @ exercise_type ex"
    using py_join_last [of "'' ''" "filter (\<lambda>p. p \<noteq> []) (front ex)" "exercise_type ex"]
    by (rule exE)
  ultimately have "doc = pre @ exercise_type ex"
    by simp
  then show ?thesis
    using has_ascii_token_append [OF t, of pre] by simp
qed

lemma pick_candidates_type:
  "ex \<in> set (pick_candidates all_ex etype kw used) \<Longrightarrow> exercise_type ex = etype"
  by (auto simp: pick_candidates_def Let_def split: if_splits)

lemma pick_unfold:
  "pick_exercises ext all_ex etype kw n g used =
     (if g \<noteq> []
      then rank_exercises_for_goal ext g (pick_candidates all_ex etype kw used) (Some n)
      else Inr (py_slice_to (sort_key ex_id (pick_candidates all_ex etype kw used)) n))"
proof -
  define filtered where "filtered = filter (\<lambda>ex. exercise_type ex = etype \<and>
      (case kw of None \<Rightarrow> True
       | Some k \<Rightarrow> list_ex (\<lambda>mg. str_contains k mg) (muscle_groups ex))) all_ex"
  define unused where "unused = filter (\<lambda>ex. ex_id ex \<notin> used) filtered"
  have c: "pick_candidates all_ex etype kw used
      = (if used \<noteq> {} \<and> unused \<noteq> [] then unused else filtered)"
    unfolding pick_candidates_def filtered_def unused_def Let_def by simp
  have p: "pick_exercises ext all_ex etype kw n g used =
      (if filtered = [] then Inr []
       else if g \<noteq> []
       then rank_exercises_for_goal ext g
              (if used \<noteq> {} \<and> unused \<noteq> [] then unused else filtered) (Some n)
       else Inr (py_slice_to (sort_key ex_id
              (if used \<noteq> {} \<and> unused \<noteq> [] then unused else filtered)) n))"
    unfolding pick_exercises_def filtered_def unused_def Let_def by simp
  show ?thesis
  proof (cases "filtered = []")
    case True
    then have "unused = []"
      by (simp add: unused_def)
    then show ?thesis
      unfolding p c using True
      by (simp add: rank_exercises_for_goal_def py_slice_to_def)
  next
    case False
    then show ?thesis
      unfolding p c by simp
  qed
qed

lemma pick_returns:
  assumes "has_ascii_token etype"
  shows "pick_exercises ext all_ex etype kw n g used
           = Inr (picked_exercises ext all_ex etype kw n g used)"
proof -
  let ?c = "pick_candidates all_ex etype kw used"
  have "list_ex (has_token ext) (build_corpus ?c)" if "2 \<le> length ?c"
  proof -
    have "build_corpus ?c \<noteq> []"
      using that by (auto simp: build_corpus_def)
    then obtain doc where doc: "doc \<in> set (build_corpus ?c)"
      by (cases "build_corpus ?c") auto
    have "has_ascii_token doc"
      using doc assms pick_candidates_type [of _ all_ex etype kw used]
      by (intro corpus_has_token [of doc ?c]) auto
    then show ?thesis
      using doc by (auto simp: list_ex_iff has_token_def)
  qed
  then show ?thesis
    by (auto simp: pick_unfold picked_unfold rank_returns)
qed

lemma type_tokens:
  "has_ascii_token ''strength''" "has_ascii_token ''cardio''"
  "has_ascii_token ''rehab''" "has_ascii_token ''mobility''"
  by code_simp+

lemma pick_returns_types:
  "pick_exercises ext all_ex ''strength'' kw n g used
     = Inr (picked_exercises ext all_ex ''strength'' kw n g used)"
  "pick_exercises ext all_ex ''cardio'' kw n g used
     = Inr (picked_exercises ext all_ex ''cardio'' kw n g used)"
  "pick_exercises ext all_ex ''rehab'' kw n g used
     = Inr (picked_exercises ext all_ex ''rehab'' kw n g used)"
  "pick_exercises ext all_ex ''mobility'' kw n g used
     = Inr (picked_exercises ext all_ex ''mobility'' kw n g used)"
  by (rule pick_returns, rule type_tokens)+

lemma then_pick_returns [simp]: "then_pick (Inr xs) (Inr ys) = Inr (xs @ ys)"
  by (simp add: then_pick_def)

lemma template_returns:
  "template_main_block ext profile allowed d used
     = Inr (template_picks ext profile allowed d used)"
  unfolding template_main_block_def template_picks_def Let_def pick_returns_types
    then_pick_returns
  by (simp only: if_distrib [of Inr] append_assoc)

lemma padded_case:
  "(case (if c then Inr (xs @ ys) else Inr xs) of
      Inl e \<Rightarrow> Inl e
    | Inr zs \<Rightarrow> Inr (f zs)) = Inr (f (if c then xs @ ys else xs))"
  by simp

lemma assemble_returns:
  "assemble_main_block ext profile allowed d used
     = Inr (padded_block ext profile allowed d used)"
  unfolding assemble_main_block_def padded_block_def template_returns Let_def
    pick_returns_types then_pick_returns sum.case
  by (rule padded_case)

lemma build_session_returns:
  "build_session ext profile allowed w d used
     = Inr (built_session ext profile allowed w d used)"
  by (simp add: build_session_def built_session_def assemble_returns Let_def split_beta)

lemma days_loop_returns:
  "days_loop ext profile allowed w ds st = Inr (days_sessions ext profile allowed w ds st)"
proof (induction ds arbitrary: st)
  case Nil
  then show ?case by simp
next
  case (Cons d ds)
  obtain acc used where st: "st = (acc, used)"
    by (cases st)
  show ?case
    unfolding st by (simp add: build_session_returns Cons.IH split_beta)
qed

lemma weeks_loop_returns:
  "weeks_loop ext profile allowed spw ws st
     = Inr (weeks_sessions ext profile allowed spw ws st)"
  by (induction ws arbitrary: st) (simp_all add: days_loop_returns)

lemma generate_returns:
  "generate_training_plan ext cfile cache profile exs
     = (Inr (fst (generated_plan ext cfile cache profile exs)),
        snd (generated_plan ext cfile cache profile exs))"
  by (simp add: generate_training_plan_def generated_plan_def weeks_loop_returns Let_def
      split_beta)

section \<open>The example plan\<close>

text \<open>
  The plan of \<open>knee_profile\<close> over \<open>example_catalog\<close>: three sessions a week for six weeks;
  the jump, contraindicated for the joints, is not in it. Without the registry the
  diagnosis is an unknown tag, the jump stays eligible and the plan is another one.
\<close>

lemma example_run:
  "fst (generate_training_plan example_externals example_conditions_file None knee_profile
          example_catalog) = Inr example_plan"
  unfolding generate_returns example_plan_def by simp

lemma weight_loss_run:
  "fst (generate_training_plan example_externals None None weight_loss_profile
          six_strength_exercises) = Inr weight_loss_plan"
  unfolding generate_returns weight_loss_plan_def by simp

lemma example_plan_cadence:
  "total_weeks example_plan = 6 \<and> sessions_per_week example_plan = 3"
  unfolding example_plan_def generated_fields by code_simp

lemma example_plan_head:
  "map (\<lambda>s. map exercise_id (exercises s)) (take 2 (sessions example_plan))
     = [[''squat'', ''run''], [''squat'', ''run'']]"
  by code_simp

lemma example_plan_pool:
  "fst (select_allowed_exercises example_externals example_conditions_file None knee_profile
          example_catalog)
     = [example_exercise ''squat'' ''strength'', example_exercise ''run'' ''cardio'']"
  by code_simp

lemma example_plan_needs_registry:
  "fst (generate_training_plan example_externals None None knee_profile example_catalog)
     \<noteq> Inr example_plan"
  by code_simp

section \<open>Determinism of plan generation\<close>

text \<open>
  Claim C9. Generating a plan twice from the same profile and the same catalog yields
  the same plan: the first run returns a plan (it does not raise), the second run starts
  in the state the first one left (the registry now cached) and returns the same plan,
  the same sessions in the same order, whatever the registry file holds by then; it
  leaves the cache as it found it.
\<close>

theorem generate_training_plan_deterministic:
  assumes "generate_training_plan ext cfile cache profile exs = (result1, cache1)"
    and "generate_training_plan ext cfile2 cache1 profile exs = (result2, cache2)"
  shows "(\<exists>plan. result1 = Inr plan \<and> result2 = Inr plan) \<and> cache2 = cache1"
proof -
  have c1: "cache1 = Some (the_registry cfile cache)"
    using assms(1) generated_cache [of ext cfile cache profile exs]
    unfolding generate_returns by simp
  have r1: "result1 = Inr (fst (generated_plan ext cfile cache profile exs))"
    using assms(1) unfolding generate_returns by simp
  have "result2 = Inr (fst (generated_plan ext cfile2 cache1 profile exs))"
    using assms(2) unfolding generate_returns by simp
  also have "\<dots> = Inr (fst (generated_plan ext cfile cache profile exs))"
    unfolding c1 generated_cached by (rule refl)
  finally have r2: "result2 = Inr (fst (generated_plan ext cfile cache profile exs))" .
  have "cache2 = cache1"
    using assms(2) generated_cache [of ext cfile2 cache1 profile exs] c1
    unfolding generate_returns by simp
  then show ?thesis
    using r1 r2 by simp
qed

theorem generate_training_plan_deterministic_witness:
  "fst (generate_training_plan example_externals example_conditions_file None knee_profile
          example_catalog) = Inr example_plan
   \<and> fst (generate_training_plan example_externals None
            (snd (generate_training_plan example_externals example_conditions_file None
                    knee_profile example_catalog))
            knee_profile example_catalog) = Inr example_plan
   \<and> fst (generate_training_plan example_externals None None knee_profile example_catalog)
       \<noteq> Inr example_plan"
proof -
  let ?first = "generate_training_plan example_externals example_conditions_file None
      knee_profile example_catalog"
  let ?second = "generate_training_plan example_externals None (snd ?first)
      knee_profile example_catalog"
  have run1: "?first = (fst ?first, snd ?first)"
    by simp
  have run2: "?second = (fst ?second, snd ?second)"
    by simp
  have "\<exists>plan. fst ?first = Inr plan \<and> fst ?second = Inr plan"
    using generate_training_plan_deterministic [OF run1 run2] by (rule conjunct1)
  then have "fst ?second = Inr example_plan"
    unfolding example_run by simp
  then show ?thesis
    using example_run example_plan_needs_registry by simp
qed

section \<open>The shape of a plan\<close>

text \<open>
  Claim C3. Generation returns a plan, and the sessions of the plan, read in order, carry
  the pairs (week, day) of the grid 1..total\_weeks times 1..sessions\_per\_week, week by
  week and day by day; so there are total\_weeks times sessions\_per\_week sessions, and
  every pair of the grid is the (week\_index, day\_index) of exactly one session.
\<close>

theorem plan_covers_every_week_and_day:
  "\<exists>plan. fst (generate_training_plan ext cfile cache profile exs) = Inr plan
     \<and> map (\<lambda>s. (week_index s, day_index s)) (sessions plan)
         = List.product [1..total_weeks plan] [1..sessions_per_week plan]
     \<and> length (sessions plan) = nat (total_weeks plan * sessions_per_week plan)
     \<and> (\<forall>w d. 1 \<le> w \<and> w \<le> total_weeks plan \<and> 1 \<le> d \<and> d \<le> sessions_per_week plan \<longrightarrow>
          length (filter (\<lambda>s. week_index s = w \<and> day_index s = d) (sessions plan)) = 1)"
proof -
  have "fst (generate_training_plan ext cfile cache profile exs)
      = Inr (fst (generated_plan ext cfile cache profile exs))"
    unfolding generate_returns by simp
  then show ?thesis
    using generated_plan_grid [of ext cfile cache profile exs] by blast
qed

theorem plan_covers_every_week_and_day_witness:
  "fst (generate_training_plan example_externals example_conditions_file None knee_profile
          example_catalog) = Inr example_plan
   \<and> (1 :: int) \<le> 2 \<and> 2 \<le> total_weeks example_plan
   \<and> (1 :: int) \<le> 3 \<and> 3 \<le> sessions_per_week example_plan
   \<and> length (sessions example_plan) = 18
   \<and> length (filter (\<lambda>s. week_index s = 2 \<and> day_index s = 3) (sessions example_plan)) = 1"
  using plan_covers_every_week_and_day
    [of example_externals example_conditions_file None knee_profile example_catalog]
    example_plan_cadence
  unfolding example_run by simp

text \<open>
  Claim C4. Generation returns a plan, and no session of the plan holds two planned
  exercises with the same exercise id.
\<close>

theorem sessions_no_duplicate_ids:
  "\<exists>plan. fst (generate_training_plan ext cfile cache profile exs) = Inr plan
     \<and> (\<forall>s \<in> set (sessions plan). distinct (map exercise_id (exercises s)))"
proof -
  have "fst (generate_training_plan ext cfile cache profile exs)
      = Inr (fst (generated_plan ext cfile cache profile exs))"
    unfolding generate_returns by simp
  then show ?thesis
    using generated_plan_distinct [of ext cfile cache profile exs] by blast
qed

theorem sessions_no_duplicate_ids_witness:
  "fst (generate_training_plan example_externals example_conditions_file None knee_profile
          example_catalog) = Inr example_plan
   \<and> map (\<lambda>s. map exercise_id (exercises s)) (take 2 (sessions example_plan))
       = [[''squat'', ''run''], [''squat'', ''run'']]
   \<and> list_all (\<lambda>s. distinct (map exercise_id (exercises s))) (sessions example_plan)"
  using sessions_no_duplicate_ids
    [of example_externals example_conditions_file None knee_profile example_catalog]
    example_plan_head
  unfolding example_run by (simp add: list_all_iff)

text \<open>
  Claim C10. Generation returns a plan, and every planned exercise of the plan carries the
  id of an exercise of the input catalog that passes the eligibility filter.
\<close>

theorem planned_exercises_resolvable:
  assumes "argsort_ok (argsort ext)"
  shows "\<exists>plan. fst (generate_training_plan ext cfile cache profile exs) = Inr plan
           \<and> (\<forall>s \<in> set (sessions plan). \<forall>pe \<in> set (exercises s).
                \<exists>ex \<in> set exs. ex_id ex = exercise_id pe
                  \<and> ex \<in> set (fst (select_allowed_exercises ext cfile cache profile exs)))"
proof -
  have "fst (generate_training_plan ext cfile cache profile exs)
      = Inr (fst (generated_plan ext cfile cache profile exs))"
    unfolding generate_returns by simp
  then show ?thesis
    using generated_plan_resolvable [OF assms, of cfile cache profile exs] by blast
qed

theorem planned_exercises_resolvable_witness:
  "argsort_ok (argsort example_externals)
   \<and> fst (generate_training_plan example_externals example_conditions_file None knee_profile
          example_catalog) = Inr example_plan
   \<and> map (\<lambda>s. map exercise_id (exercises s)) (take 2 (sessions example_plan))
       = [[''squat'', ''run''], [''squat'', ''run'']]
   \<and> list_all (\<lambda>s. list_all (\<lambda>pe. list_ex (\<lambda>ex. ex_id ex = exercise_id pe
          \<and> ex \<in> set (fst (select_allowed_exercises example_externals example_conditions_file
                None knee_profile example_catalog))) example_catalog) (exercises s))
       (sessions example_plan)"
  using planned_exercises_resolvable
    [of example_externals example_conditions_file None knee_profile example_catalog]
    example_plan_head
  unfolding example_run by (simp add: list_all_iff list_ex_iff)

text \<open>
  Claim C1. An exercise of the catalog whose contraindication tags meet the profile's
  risk tags (as \<open>get_risk_tags_for_profile\<close> computes them) is not in the eligible pool;
  generation returns a plan, and, the ids of the catalog being unique as the data model
  requires, no planned exercise of the plan references its id.
\<close>

theorem contraindicated_excluded:
  assumes "argsort_ok (argsort ext)"
    and "ex \<in> set exs"
    and "fst (get_risk_tags_for_profile cfile cache profile) \<inter> set (contraindications ex) \<noteq> {}"
  shows "ex \<notin> set (fst (select_allowed_exercises ext cfile cache profile exs))
         \<and> (\<exists>plan. fst (generate_training_plan ext cfile cache profile exs) = Inr plan
              \<and> (distinct (map ex_id exs) \<longrightarrow>
                   (\<forall>s \<in> set (sessions plan). \<forall>pe \<in> set (exercises s).
                      exercise_id pe \<noteq> ex_id ex)))"
proof -
  have "fst (generate_training_plan ext cfile cache profile exs)
      = Inr (fst (generated_plan ext cfile cache profile exs))"
    unfolding generate_returns by simp
  then show ?thesis
    using generated_plan_contraindicated [OF assms] by blast
qed

theorem contraindicated_excluded_witness:
  "argsort_ok (argsort example_externals)
   \<and> (example_exercise ''jump'' ''cardio'')\<lparr>contraindications := [tag_joints]\<rparr>
       \<in> set example_catalog
   \<and> fst (get_risk_tags_for_profile example_conditions_file None knee_profile)
       \<inter> set (contraindications
            ((example_exercise ''jump'' ''cardio'')\<lparr>contraindications := [tag_joints]\<rparr>)) \<noteq> {}
   \<and> distinct (map ex_id example_catalog)
   \<and> (example_exercise ''jump'' ''cardio'')\<lparr>contraindications := [tag_joints]\<rparr>
       \<notin> set (fst (select_allowed_exercises example_externals example_conditions_file None
            knee_profile example_catalog))
   \<and> fst (generate_training_plan example_externals example_conditions_file None knee_profile
          example_catalog) = Inr example_plan
   \<and> list_all (\<lambda>s. list_all (\<lambda>pe. exercise_id pe \<noteq> ''jump'') (exercises s))
       (sessions example_plan)"
proof -
  let ?jump = "(example_exercise ''jump'' ''cardio'')\<lparr>contraindications := [tag_joints]\<rparr>"
  have ok: "argsort_ok (argsort example_externals)"
    by simp
  have mem: "?jump \<in> set example_catalog"
    by (simp add: example_catalog_def)
  have risk: "fst (get_risk_tags_for_profile example_conditions_file None knee_profile)
      \<inter> set (contraindications ?jump) \<noteq> {}"
    by code_simp
  have dist: "distinct (map ex_id example_catalog)"
    by code_simp
  have jid: "ex_id ?jump = ''jump''"
    by (simp add: example_exercise_def)
  show ?thesis
    using contraindicated_excluded [OF ok mem risk] ok mem risk dist
    unfolding example_run by (simp add: list_all_iff jid)
qed

section \<open>The minimum of a session\<close>

text \<open>
  Claim C5 does not hold of the source. The padding asks \<open>_pick_exercises\<close> for as many
  generic strength exercises as the block is short of, with the same \<open>used_global\<close> as the
  block's own picks, so it gets the head of the ranking the block was filled from, and
  the loop over the block then drops the repeats. For the goal weight loss with no
  eligible cardio exercise the block is the five best strength exercises and the padding
  is the best one again: generation returns a plan whose every session has at most 5
  exercises, below the minimum of 6, however many strength exercises are eligible.
\<close>

theorem padding_repeats_picks:
  assumes "goal profile = ''weight_loss''"
    and "\<forall>ex \<in> set exs. exercise_type ex \<noteq> ''cardio''"
  shows "min_main_for profile = 6
         \<and> (\<exists>plan. fst (generate_training_plan ext cfile cache profile exs) = Inr plan
              \<and> (\<forall>s \<in> set (sessions plan). length (exercises s) \<le> 5))"
proof -
  have "fst (generate_training_plan ext cfile cache profile exs)
      = Inr (fst (generated_plan ext cfile cache profile exs))"
    unfolding generate_returns by simp
  then show ?thesis
    using generated_plan_short_sessions [OF assms, of ext cfile cache] by blast
qed

theorem padding_repeats_picks_witness:
  "goal weight_loss_profile = ''weight_loss''
   \<and> list_all (\<lambda>ex. exercise_type ex = ''strength'') six_strength_exercises
   \<and> distinct (map ex_id six_strength_exercises)
   \<and> fst (select_allowed_exercises example_externals None None weight_loss_profile
        six_strength_exercises) = six_strength_exercises
   \<and> fst (generate_training_plan example_externals None None weight_loss_profile
        six_strength_exercises) = Inr weight_loss_plan
   \<and> map (\<lambda>s. map exercise_id (exercises s)) (take 2 (sessions weight_loss_plan))
       = [[''a'', ''b'', ''c'', ''d'', ''e''], [''f'']]
   \<and> list_all (\<lambda>s. length (exercises s) \<le> 5) (sessions weight_loss_plan)"
proof -
  have a: "goal weight_loss_profile = ''weight_loss''"
    by code_simp
  have b: "list_all (\<lambda>ex. exercise_type ex = ''strength'') six_strength_exercises"
    by code_simp
  have c: "distinct (map ex_id six_strength_exercises)"
    by code_simp
  have d: "fst (select_allowed_exercises example_externals None None weight_loss_profile
        six_strength_exercises) = six_strength_exercises"
    by code_simp
  have e: "map (\<lambda>s. map exercise_id (exercises s)) (take 2 (sessions weight_loss_plan))
       = [[''a'', ''b'', ''c'', ''d'', ''e''], [''f'']]"
    by code_simp
  have nc: "\<forall>ex \<in> set six_strength_exercises. exercise_type ex \<noteq> ''cardio''"
    using b by (auto simp: list_all_iff)
  show ?thesis
    using a b c d e
      padding_repeats_picks [OF a nc, of example_externals None None]
    unfolding weight_loss_run by (simp add: list_all_iff)
qed

end
